theory Spec2Isabelle
  imports Complex_Main "HOL-Library.Multiset"
begin

section \<open>Data model of socket-server.js\<close>

text \<open>
  The server keeps every game room in one in-memory \<^verbatim>\<open>Map\<close> (\<^verbatim>\<open>gameRooms\<close>) from room
  names to room objects. The objects are plain JavaScript object literals; they are
  modelled as records. Names, suits, ranks and set types sent by clients are modelled as
  strings. A property that is either absent (\<^verbatim>\<open>undefined\<close>) or a string, or either
  \<^verbatim>\<open>null\<close> or a string, is an option.
\<close>

text \<open>
  The team of a player takes three kinds of values which \<^verbatim>\<open>===\<close> tells apart: \<^verbatim>\<open>null\<close>
  (the host literal of \<^verbatim>\<open>createRoom\<close>), \<^verbatim>\<open>undefined\<close> (a \<^verbatim>\<open>joinTeam\<close> payload without a
  team) and a string (\<^verbatim>\<open>'unassigned'\<close> of \<^verbatim>\<open>joinRoom\<close>, or the team of a \<^verbatim>\<open>joinTeam\<close>
  payload).
\<close>

datatype teamValue = TeamNull | TeamUndefined | TeamName string

record card =
  suit :: string
  rank :: string
  setType :: string

text \<open>
  A player object. The host literal of \<^verbatim>\<open>createRoom\<close> has \<^verbatim>\<open>socketId\<close>, \<^verbatim>\<open>team: null\<close> and
  \<^verbatim>\<open>isHost: true\<close>; the literal of \<^verbatim>\<open>joinRoom\<close> has \<^verbatim>\<open>team: 'unassigned'\<close>,
  \<^verbatim>\<open>connected: true\<close> and \<^verbatim>\<open>canClaimTurn: false\<close>. A flag that a literal does not define
  reads as \<^verbatim>\<open>undefined\<close>, which the code only ever tests for truthiness: it is \<open>False\<close> here.
\<close>

record player =
  pid :: string
  pname :: string
  socketId :: "string option"
  team :: teamValue
  hand :: "card list"
  isHost :: bool
  connected :: bool
  canClaimTurn :: bool

text \<open>One entry of the captured-set log pushed by \<^verbatim>\<open>declareSet\<close>: \<^verbatim>\<open>{ team, suit, setType }\<close>.\<close>

datatype captured = Captured (capTeam: teamValue) (capSuit: string) (capSetType: string)

text \<open>
  \<^verbatim>\<open>room.capturedSets\<close> is created by \<^verbatim>\<open>createRoom\<close> as the object \<^verbatim>\<open>{ A: [], B: [] }\<close>, while
  \<^verbatim>\<open>declareSet\<close> and \<^verbatim>\<open>checkWinCondition\<close> treat it as an array. Both shapes are values of
  the property.
\<close>

datatype capturedSetsValue =
    TeamObject "captured list" "captured list"
  | SetArray "captured list"

text \<open>
  A room object. The first block of fields is the literal of \<^verbatim>\<open>createRoom\<close>. The second
  block are the properties which the other handlers read or assign and which that literal
  does not define: they are \<open>None\<close> (\<^verbatim>\<open>undefined\<close>) until some handler assigns them.
\<close>

record room =
  rname :: string
  players :: "player list"
  maxPlayers :: nat
  status :: string
  teams :: "string list \<times> string list"
  currentTurn :: "string option"
  deck :: "card list"
  capturedSets :: capturedSetsValue
  lastAction :: "string option"
  playerCount :: "nat option"
  adminId :: "string option"
  currentTurnPlayerId :: "string option"
  gameStatus :: "string option"
  winner :: "string option"

type_synonym gameRooms = "string \<rightharpoonup> room"

section \<open>Deck builder\<close>

definition suits :: "string list" where
  "suits = [''hearts'', ''diamonds'', ''clubs'', ''spades'']"

definition lowerRanks :: "string list" where
  "lowerRanks = [''ace'', ''2'', ''3'', ''4'', ''5'', ''6'']"

definition upperRanks :: "string list" where
  "upperRanks = [''8'', ''9'', ''10'', ''jack'', ''queen'', ''king'']"

text \<open>
  The two nested \<^verbatim>\<open>forEach\<close> loops of \<^verbatim>\<open>createAndShuffleDeck\<close>: all lower sets suit by suit,
  then all upper sets suit by suit.
\<close>

definition setCards :: "string \<Rightarrow> string list \<Rightarrow> string \<Rightarrow> card list" where
  "setCards st ranks s = map (\<lambda>r. \<lparr>suit = s, rank = r, setType = st\<rparr>) ranks"

definition orderedDeck :: "card list" where
  "orderedDeck =
     concat (map (setCards ''lower'' lowerRanks) suits) @
     concat (map (setCards ''upper'' upperRanks) suits)"

text \<open>
  The destructuring swap \<^verbatim>\<open>[deck[i], deck[j]] = [deck[j], deck[i]]\<close>: both reads happen
  before the two writes.
\<close>

definition swap :: "nat \<Rightarrow> nat \<Rightarrow> 'a list \<Rightarrow> 'a list" where
  "swap i j xs = xs[i := xs ! j, j := xs ! i]"

text \<open>
  The shuffle loop \<^verbatim>\<open>for (let i = deck.length - 1; i > 0; i--)\<close>. The random source is a
  parameter: \<open>rnd i\<close> is the value that \<^verbatim>\<open>Math.random()\<close> returns in the iteration with
  index \<open>i\<close>, and \<^verbatim>\<open>j = Math.floor(Math.random() * (i + 1))\<close>.
\<close>

fun shuffleLoop :: "(nat \<Rightarrow> rat) \<Rightarrow> nat \<Rightarrow> 'a list \<Rightarrow> 'a list" where
  "shuffleLoop rnd 0 xs = xs"
| "shuffleLoop rnd (Suc n) xs =
     shuffleLoop rnd n (swap (Suc n) (nat \<lfloor>rnd (Suc n) * of_nat (Suc n + 1)\<rfloor>) xs)"

definition createAndShuffleDeck :: "(nat \<Rightarrow> rat) \<Rightarrow> card list" where
  "createAndShuffleDeck rnd = shuffleLoop rnd (length orderedDeck - 1) orderedDeck"

text \<open>\<^verbatim>\<open>Math.random()\<close> returns a number in the half-open interval from 0 to 1.\<close>

definition unitInterval :: "(nat \<Rightarrow> rat) \<Rightarrow> bool" where
  "unitInterval rnd = (\<forall>i. 0 \<le> rnd i \<and> rnd i < 1)"

section \<open>Helpers of the rules engine\<close>

text \<open>\<^verbatim>\<open>Array.prototype.findIndex\<close>; the result \<^verbatim>\<open>-1\<close> is \<open>None\<close>.\<close>

fun findIndex :: "('a \<Rightarrow> bool) \<Rightarrow> 'a list \<Rightarrow> nat option" where
  "findIndex P [] = None"
| "findIndex P (x # xs) = (if P x then Some 0 else map_option Suc (findIndex P xs))"

text \<open>The callback used three times in the source to recognise one exact card.\<close>

definition isCard :: "string \<Rightarrow> string \<Rightarrow> string \<Rightarrow> card \<Rightarrow> bool" where
  "isCard s r st c = (suit c = s \<and> rank c = r \<and> setType c = st)"

definition isValidRequest :: "player \<Rightarrow> player \<Rightarrow> card \<Rightarrow> bool" where
  "isValidRequest requestingPlayer targetPlayer requestedCard =
     (if pid requestingPlayer = pid targetPlayer then False
      else if team requestingPlayer = team targetPlayer then False
      else if length (hand requestingPlayer) = 0 then False
      else if length (hand targetPlayer) = 0 then False
      else if \<not> list_ex (\<lambda>c. suit c = suit requestedCard \<and> setType c = setType requestedCard)
                 (hand requestingPlayer) then False
      else if list_ex (isCard (suit requestedCard) (rank requestedCard) (setType requestedCard))
                 (hand requestingPlayer) then False
      else True)"

text \<open>
  \<^verbatim>\<open>transferCard(fromPlayer, toPlayer, suit, rank, setType)\<close> mutates two player objects; the
  model returns the flag and both players. It is only called with two different objects
  (the request handler has checked that their ids differ). \<^verbatim>\<open>splice(cardIndex, 1)\<close> removes
  the element at \<open>cardIndex\<close>, \<^verbatim>\<open>push\<close> appends it.
\<close>

definition transferCard ::
  "player \<Rightarrow> player \<Rightarrow> string \<Rightarrow> string \<Rightarrow> string \<Rightarrow> bool \<times> player \<times> player" where
  "transferCard fromPlayer toPlayer s r st =
     (case findIndex (isCard s r st) (hand fromPlayer) of
        None \<Rightarrow> (False, fromPlayer, toPlayer)
      | Some cardIndex \<Rightarrow>
          (True,
           fromPlayer\<lparr>hand := take cardIndex (hand fromPlayer) @ drop (Suc cardIndex) (hand fromPlayer)\<rparr>,
           toPlayer\<lparr>hand := hand toPlayer @ [hand fromPlayer ! cardIndex]\<rparr>))"

definition teamHasCompleteSet :: "player list \<Rightarrow> teamValue \<Rightarrow> string \<Rightarrow> string \<Rightarrow> bool" where
  "teamHasCompleteSet ps tm s st =
     (let teamPlayers = filter (\<lambda>p. team p = tm) ps;
          teamCards = concat (map hand teamPlayers);
          ranks = (if st = ''lower'' then lowerRanks else upperRanks)
      in list_all (\<lambda>r. list_ex (isCard s r st) teamCards) ranks)"

definition checkWinCondition :: "captured list \<Rightarrow> string option" where
  "checkWinCondition cs =
     (let redSets = length (filter (\<lambda>c. capTeam c = TeamName ''red'') cs);
          blueSets = length (filter (\<lambda>c. capTeam c = TeamName ''blue'') cs)
      in if redSets \<ge> 3 \<and> redSets > blueSets then Some ''red''
         else if blueSets \<ge> 3 \<and> blueSets > redSets then Some ''blue''
         else if redSets \<ge> 3 \<and> blueSets \<ge> 3 \<and> redSets = blueSets then Some ''draw''
         else None)"

text \<open>
  \<^verbatim>\<open>getNextPlayer\<close>: with \<^verbatim>\<open>findIndex\<close> returning \<^verbatim>\<open>-1\<close> the next index is 0. On an empty
  array the index is \<^verbatim>\<open>NaN\<close> and the result \<^verbatim>\<open>undefined\<close>, here \<open>None\<close>.
\<close>

definition getNextPlayer :: "string \<Rightarrow> player list \<Rightarrow> player option" where
  "getNextPlayer currentPlayerId ps =
     (if ps = [] then None
      else (case findIndex (\<lambda>p. pid p = currentPlayerId) ps of
              None \<Rightarrow> Some (ps ! 0)
            | Some currentIndex \<Rightarrow> Some (ps ! ((currentIndex + 1) mod length ps))))"

text \<open>
  The dealing loop of \<^verbatim>\<open>startGame\<close>: \<^verbatim>\<open>player.hand = deck.splice(0, 6)\<close> for each player in
  array order; \<^verbatim>\<open>splice\<close> returns at most six cards and removes them from the deck.
\<close>

fun dealCards :: "card list \<Rightarrow> player list \<Rightarrow> player list" where
  "dealCards d [] = []"
| "dealCards d (p # ps) = p\<lparr>hand := take 6 d\<rparr> # dealCards (drop 6 d) ps"

text \<open>A template literal prints \<^verbatim>\<open>null\<close> and \<^verbatim>\<open>undefined\<close> as these words.\<close>

definition showTeam :: "teamValue \<Rightarrow> string" where
  "showTeam t = (case t of TeamNull \<Rightarrow> ''null'' | TeamUndefined \<Rightarrow> ''undefined'' | TeamName x \<Rightarrow> x)"

section \<open>Event handlers\<close>

text \<open>
  What a handler sends: an error message to the acting socket, a reply to the acting
  socket, or a snapshot to the room. \<open>UncaughtTypeError\<close> stands for a \<^verbatim>\<open>TypeError\<close> thrown
  inside the handler (calling a method on a value that does not have it); nothing catches
  it in the handlers other than \<^verbatim>\<open>createRoom\<close>.
\<close>

datatype error =
    MissingNames      \<comment> \<open>Player name and room name are required\<close>
  | AlreadyExists     \<comment> \<open>Room already exists\<close>
  | RoomNotFound      \<comment> \<open>Room not found\<close>
  | RoomFull          \<comment> \<open>Room is full\<close>
  | PlayerNotFound    \<comment> \<open>Player not found\<close>
  | NotAdmin          \<comment> \<open>Only the admin can start the game\<close>
  | RoomNotFull       \<comment> \<open>Room is not full\<close>
  | TeamsUnbalanced   \<comment> \<open>Teams must be balanced\<close>
  | NotYourTurn       \<comment> \<open>Not your turn\<close>
  | InvalidRequest    \<comment> \<open>Invalid card request\<close>
  | CannotClaimTurn   \<comment> \<open>You cannot claim the turn\<close>

datatype event =
    Err error
  | RoomCreated string string
  | JoinedRoom string string
  | RoomUpdate room
  | GameStarted room
  | GameUpdate room
  | UncaughtTypeError

text \<open>
  Every handler takes the id of the acting socket (\<^verbatim>\<open>socket.id\<close>), the fields of the
  payload and the room map, and returns what it emits together with the room map after
  it. \<^verbatim>\<open>!playerName\<close> holds of the empty string.
\<close>

definition createRoom :: "string \<Rightarrow> string \<Rightarrow> string \<Rightarrow> nat \<Rightarrow> gameRooms \<Rightarrow> event \<times> gameRooms" where
  "createRoom sid playerName roomName cnt rooms =
     (if playerName = [] \<or> roomName = [] then (Err MissingNames, rooms)
      else if rooms roomName \<noteq> None then (Err AlreadyExists, rooms)
      else
        (RoomCreated roomName sid,
         rooms(roomName \<mapsto>
           \<lparr>rname = roomName,
            players = [\<lparr>pid = sid, pname = playerName, socketId = Some sid, team = TeamNull,
                        hand = [], isHost = True, connected = False, canClaimTurn = False\<rparr>],
            maxPlayers = cnt,
            status = ''waiting'',
            teams = ([], []),
            currentTurn = None,
            deck = [],
            capturedSets = TeamObject [] [],
            lastAction = None,
            playerCount = None,
            adminId = None,
            currentTurnPlayerId = None,
            gameStatus = None,
            winner = None\<rparr>)))"

text \<open>
  \<^verbatim>\<open>room.players.length >= room.playerCount\<close>: a comparison with \<^verbatim>\<open>undefined\<close> is false.
\<close>

definition joinRoom :: "string \<Rightarrow> string \<Rightarrow> string \<Rightarrow> gameRooms \<Rightarrow> event \<times> gameRooms" where
  "joinRoom sid playerName roomName rooms =
     (case rooms roomName of
        None \<Rightarrow> (Err RoomNotFound, rooms)
      | Some room \<Rightarrow>
          if (case playerCount room of None \<Rightarrow> False | Some n \<Rightarrow> length (players room) \<ge> n)
          then (Err RoomFull, rooms)
          else
            (JoinedRoom roomName sid,
             rooms(roomName \<mapsto> room\<lparr>players := players room @
               [\<lparr>pid = sid, pname = playerName, socketId = None, team = TeamName ''unassigned'',
                 hand = [], isHost = False, connected = True, canClaimTurn = False\<rparr>]\<rparr>)))"

text \<open>
  \<^verbatim>\<open>room.players.find(p => p.id === socket.id)\<close> yields a reference to the first such player
  object; an assignment through the reference is an update of the array at its index.
\<close>

definition joinTeam :: "string \<Rightarrow> string \<Rightarrow> teamValue \<Rightarrow> gameRooms \<Rightarrow> event \<times> gameRooms" where
  "joinTeam sid roomName tm rooms =
     (case rooms roomName of
        None \<Rightarrow> (Err RoomNotFound, rooms)
      | Some room \<Rightarrow>
          (case findIndex (\<lambda>p. pid p = sid) (players room) of
             None \<Rightarrow> (Err PlayerNotFound, rooms)
           | Some i \<Rightarrow>
               let room' = room\<lparr>players := (players room)[i := (players room ! i)\<lparr>team := tm\<rparr>]\<rparr>
               in (RoomUpdate room', rooms(roomName \<mapsto> room'))))"

text \<open>
  \<^verbatim>\<open>socket.id !== room.adminId\<close> and \<^verbatim>\<open>room.players.length !== room.playerCount\<close> are true when
  the property is \<^verbatim>\<open>undefined\<close>. Reading \<^verbatim>\<open>room.players[0].id\<close> of an empty array throws.
\<close>

definition startGame :: "(nat \<Rightarrow> rat) \<Rightarrow> string \<Rightarrow> string \<Rightarrow> gameRooms \<Rightarrow> event \<times> gameRooms" where
  "startGame rnd sid roomName rooms =
     (case rooms roomName of
        None \<Rightarrow> (Err RoomNotFound, rooms)
      | Some room \<Rightarrow>
          if Some sid \<noteq> adminId room then (Err NotAdmin, rooms)
          else if Some (length (players room)) \<noteq> playerCount room then (Err RoomNotFull, rooms)
          else
            let redTeam = filter (\<lambda>p. team p = TeamName ''red'') (players room);
                blueTeam = filter (\<lambda>p. team p = TeamName ''blue'') (players room)
            in if length redTeam \<noteq> length blueTeam then (Err TeamsUnbalanced, rooms)
               else
                 let dealt = dealCards (createAndShuffleDeck rnd) (players room)
                 in (case dealt of
                       [] \<Rightarrow> (UncaughtTypeError, rooms)
                     | p0 # _ \<Rightarrow>
                         let room' = room\<lparr>players := dealt,
                                          currentTurnPlayerId := Some (pid p0),
                                          gameStatus := Some ''playing''\<rparr>
                         in (GameStarted room', rooms(roomName \<mapsto> room'))))"

definition gotMessage :: "player \<Rightarrow> player \<Rightarrow> string \<Rightarrow> string \<Rightarrow> string" where
  "gotMessage requestingPlayer targetPlayer r s =
     pname requestingPlayer @ '' got the '' @ r @ '' of '' @ s @ '' from '' @ pname targetPlayer"

definition askedMessage :: "player \<Rightarrow> player \<Rightarrow> string \<Rightarrow> string \<Rightarrow> string" where
  "askedMessage requestingPlayer targetPlayer r s =
     pname requestingPlayer @ '' asked '' @ pname targetPlayer @ '' for the '' @ r @ '' of '' @ s @
     '' but they didn't have it''"

definition requestCard ::
  "string \<Rightarrow> string \<Rightarrow> string \<Rightarrow> string \<Rightarrow> string \<Rightarrow> string \<Rightarrow> gameRooms \<Rightarrow> event \<times> gameRooms" where
  "requestCard sid roomName targetPlayerId s r st rooms =
     (case rooms roomName of
        None \<Rightarrow> (Err RoomNotFound, rooms)
      | Some room \<Rightarrow>
          (case (findIndex (\<lambda>p. pid p = sid) (players room),
                 findIndex (\<lambda>p. pid p = targetPlayerId) (players room)) of
             (Some ri, Some ti) \<Rightarrow>
               let requestingPlayer = players room ! ri;
                   targetPlayer = players room ! ti
               in if Some (pid requestingPlayer) \<noteq> currentTurnPlayerId room
                  then (Err NotYourTurn, rooms)
                  else if \<not> isValidRequest requestingPlayer targetPlayer
                              \<lparr>suit = s, rank = r, setType = st\<rparr>
                  then (Err InvalidRequest, rooms)
                  else
                    let hasCard = list_ex (isCard s r st) (hand targetPlayer);
                        room' =
                          (if hasCard then
                             (case transferCard targetPlayer requestingPlayer s r st of
                                (_, fromPlayer', toPlayer') \<Rightarrow>
                                  room\<lparr>players := (players room)[ti := fromPlayer', ri := toPlayer'],
                                       lastAction := Some (gotMessage requestingPlayer targetPlayer r s),
                                       currentTurnPlayerId := Some (pid targetPlayer)\<rparr>)
                           else
                             room\<lparr>lastAction := Some (askedMessage requestingPlayer targetPlayer r s),
                                  currentTurnPlayerId := Some (pid targetPlayer)\<rparr>)
                    in (GameUpdate room', rooms(roomName \<mapsto> room'))
           | _ \<Rightarrow> (Err PlayerNotFound, rooms)))"

definition correctMessage :: "player \<Rightarrow> string \<Rightarrow> string \<Rightarrow> string" where
  "correctMessage declaringPlayer s st =
     pname declaringPlayer @ '' correctly declared the '' @ st @ '' '' @ s @ '' set for the '' @
     showTeam (team declaringPlayer) @ '' team''"

definition incorrectMessage :: "player \<Rightarrow> string \<Rightarrow> string \<Rightarrow> string \<Rightarrow> string" where
  "incorrectMessage declaringPlayer opposingTeam s st =
     pname declaringPlayer @ '' incorrectly declared the '' @ st @ '' '' @ s @
     '' set, giving it to the '' @ opposingTeam @ '' team''"

definition opposingTeamOf :: "player \<Rightarrow> string" where
  "opposingTeamOf declaringPlayer = (if team declaringPlayer = TeamName ''red'' then ''blue'' else ''red'')"

text \<open>
  \<^verbatim>\<open>room.capturedSets.push(...)\<close> throws on the object \<^verbatim>\<open>{ A: [], B: [] }\<close>, which has no
  \<^verbatim>\<open>push\<close>; nothing has been assigned at that point. Any winner string is truthy.
\<close>

definition declareSet :: "string \<Rightarrow> string \<Rightarrow> string \<Rightarrow> string \<Rightarrow> gameRooms \<Rightarrow> event \<times> gameRooms" where
  "declareSet sid roomName s st rooms =
     (case rooms roomName of
        None \<Rightarrow> (Err RoomNotFound, rooms)
      | Some room \<Rightarrow>
          (case findIndex (\<lambda>p. pid p = sid) (players room) of
             None \<Rightarrow> (Err PlayerNotFound, rooms)
           | Some di \<Rightarrow>
               let declaringPlayer = players room ! di
               in if Some (pid declaringPlayer) \<noteq> currentTurnPlayerId room
                  then (Err NotYourTurn, rooms)
                  else
                    (case capturedSets room of
                       TeamObject a b \<Rightarrow> (UncaughtTypeError, rooms)
                     | SetArray cs \<Rightarrow>
                         let isCorrect = teamHasCompleteSet (players room) (team declaringPlayer) s st;
                             opposingTeam = opposingTeamOf declaringPlayer;
                             cs' = (if isCorrect then cs @ [Captured (team declaringPlayer) s st]
                                    else cs @ [Captured (TeamName opposingTeam) s st]);
                             msg = (if isCorrect then correctMessage declaringPlayer s st
                                    else incorrectMessage declaringPlayer opposingTeam s st);
                             room1 = room\<lparr>capturedSets := SetArray cs', lastAction := Some msg\<rparr>
                         in (case checkWinCondition cs' of
                               Some w \<Rightarrow>
                                 let room2 = room1\<lparr>gameStatus := Some ''finished'', winner := Some w\<rparr>
                                 in (GameUpdate room2, rooms(roomName \<mapsto> room2))
                             | None \<Rightarrow>
                                 (case getNextPlayer (pid declaringPlayer) (players room) of
                                    None \<Rightarrow> (UncaughtTypeError, rooms(roomName \<mapsto> room1))
                                  | Some nextPlayer \<Rightarrow>
                                      let room2 = room1\<lparr>currentTurnPlayerId := Some (pid nextPlayer)\<rparr>
                                      in (GameUpdate room2, rooms(roomName \<mapsto> room2)))))))"

definition claimTurn :: "string \<Rightarrow> string \<Rightarrow> gameRooms \<Rightarrow> event \<times> gameRooms" where
  "claimTurn sid roomName rooms =
     (case rooms roomName of
        None \<Rightarrow> (Err RoomNotFound, rooms)
      | Some room \<Rightarrow>
          (case findIndex (\<lambda>p. pid p = sid) (players room) of
             None \<Rightarrow> (Err PlayerNotFound, rooms)
           | Some i \<Rightarrow>
               let player = players room ! i
               in if \<not> canClaimTurn player then (Err CannotClaimTurn, rooms)
                  else
                    let room' = room\<lparr>players := (players room)[i := player\<lparr>canClaimTurn := False\<rparr>],
                                     currentTurnPlayerId := Some (pid player)\<rparr>
                    in (GameUpdate room', rooms(roomName \<mapsto> room'))))"

section \<open>Dispatch and runs\<close>

text \<open>
  The \<^verbatim>\<open>socket.on\<close> table: one constructor for each event name with the fields of its
  payload.
\<close>

datatype action =
    CreateRoom string string nat
  | JoinRoom string string
  | JoinTeam string teamValue
  | StartGame string
  | RequestCard string string string string string
  | DeclareSet string string string
  | ClaimTurn string

fun handle :: "(nat \<Rightarrow> rat) \<Rightarrow> string \<Rightarrow> action \<Rightarrow> gameRooms \<Rightarrow> event \<times> gameRooms" where
  "handle rnd sid (CreateRoom playerName roomName cnt) rooms = createRoom sid playerName roomName cnt rooms"
| "handle rnd sid (JoinRoom playerName roomName) rooms = joinRoom sid playerName roomName rooms"
| "handle rnd sid (JoinTeam roomName tm) rooms = joinTeam sid roomName tm rooms"
| "handle rnd sid (StartGame roomName) rooms = startGame rnd sid roomName rooms"
| "handle rnd sid (RequestCard roomName targetPlayerId s r st) rooms =
     requestCard sid roomName targetPlayerId s r st rooms"
| "handle rnd sid (DeclareSet roomName s st) rooms = declareSet sid roomName s st rooms"
| "handle rnd sid (ClaimTurn roomName) rooms = claimTurn sid roomName rooms"

text \<open>
  The server handles one message after the other. A message is the acting socket with its
  action; \<open>rnds k\<close> are the random draws available to the handler of message number \<open>k\<close>.
  The room map of a fresh server is empty (\<^verbatim>\<open>new Map()\<close>).
\<close>

fun run :: "(nat \<Rightarrow> nat \<Rightarrow> rat) \<Rightarrow> (string \<times> action) list \<Rightarrow> gameRooms \<Rightarrow> gameRooms" where
  "run rnds [] rooms = rooms"
| "run rnds ((sid, a) # msgs) rooms =
     run (\<lambda>k. rnds (Suc k)) msgs (snd (handle (rnds 0) sid a rooms))"

definition allCards :: "room \<Rightarrow> card list" where
  "allCards room = concat (map hand (players room))"

text \<open>The per-team counts that \<^verbatim>\<open>checkWinCondition\<close> computes with \<^verbatim>\<open>filter(...).length\<close>.\<close>

definition countTeam :: "string \<Rightarrow> captured list \<Rightarrow> nat" where
  "countTeam t cs = length (filter (\<lambda>c. capTeam c = TeamName t) cs)"

text \<open>
  A room in which no game has started: the properties that \<^verbatim>\<open>createRoom\<close> leaves undefined
  are still undefined, the captured sets are the object of the literal, and nobody holds
  a card or the right to claim the turn.
\<close>

definition pristine :: "room \<Rightarrow> bool" where
  "pristine room =
     (adminId room = None \<and> playerCount room = None \<and> currentTurnPlayerId room = None \<and>
      capturedSets room = TeamObject [] [] \<and> gameStatus room = None \<and> winner room = None \<and>
      list_all (\<lambda>p. hand p = [] \<and> \<not> canClaimTurn p) (players room))"

definition allPristine :: "gameRooms \<Rightarrow> bool" where
  "allPristine rooms = (\<forall>rn room. rooms rn = Some room \<longrightarrow> pristine room)"

text \<open>Messages by kind.\<close>

fun isRequestCard :: "action \<Rightarrow> bool" where
  "isRequestCard (RequestCard roomName targetPlayerId s r st) = True"
| "isRequestCard _ = False"

section \<open>Example rooms and runs\<close>

text \<open>A room for one player, created by socket \<open>h\<close>.\<close>

definition smallRoom :: gameRooms where
  "smallRoom = snd (createRoom ''h'' ''Ann'' ''r'' 1 Map.empty)"

text \<open>Socket \<open>h\<close> creates room \<open>r1\<close> for eight players and seven more sockets join it.\<close>

definition eightJoined :: "(string \<times> action) list" where
  "eightJoined =
     [(''h'', CreateRoom ''Ann'' ''r1'' 8),
      (''p1'', JoinRoom ''Bob'' ''r1''), (''p2'', JoinRoom ''Cat'' ''r1''),
      (''p3'', JoinRoom ''Dan'' ''r1''), (''p4'', JoinRoom ''Eve'' ''r1''),
      (''p5'', JoinRoom ''Fay'' ''r1''), (''p6'', JoinRoom ''Gus'' ''r1''),
      (''p7'', JoinRoom ''Hal'' ''r1'')]"

definition fourAgainstFour :: "(string \<times> action) list" where
  "fourAgainstFour = eightJoined @
     [(''h'', JoinTeam ''r1'' (TeamName ''red'')), (''p1'', JoinTeam ''r1'' (TeamName ''red'')),
      (''p2'', JoinTeam ''r1'' (TeamName ''red'')), (''p3'', JoinTeam ''r1'' (TeamName ''red'')),
      (''p4'', JoinTeam ''r1'' (TeamName ''blue'')), (''p5'', JoinTeam ''r1'' (TeamName ''blue'')),
      (''p6'', JoinTeam ''r1'' (TeamName ''blue'')), (''p7'', JoinTeam ''r1'' (TeamName ''blue''))]"

definition fiveAgainstThree :: "(string \<times> action) list" where
  "fiveAgainstThree = eightJoined @
     [(''h'', JoinTeam ''r1'' (TeamName ''red'')), (''p1'', JoinTeam ''r1'' (TeamName ''red'')),
      (''p2'', JoinTeam ''r1'' (TeamName ''red'')), (''p3'', JoinTeam ''r1'' (TeamName ''red'')),
      (''p4'', JoinTeam ''r1'' (TeamName ''red'')), (''p5'', JoinTeam ''r1'' (TeamName ''blue'')),
      (''p6'', JoinTeam ''r1'' (TeamName ''blue'')), (''p7'', JoinTeam ''r1'' (TeamName ''blue''))]"

text \<open>A log of captured sets with three entries for red and two for blue.\<close>

definition threeRedTwoBlue :: "captured list" where
  "threeRedTwoBlue =
     [Captured (TeamName ''red'') ''hearts'' ''lower'', Captured (TeamName ''red'') ''hearts'' ''upper'',
      Captured (TeamName ''red'') ''clubs'' ''lower'', Captured (TeamName ''blue'') ''clubs'' ''upper'',
      Captured (TeamName ''blue'') ''spades'' ''lower'']"

text \<open>
  A room of two players in the middle of a game: Ann of the red team holds the ace of
  hearts and the turn, Bob of the blue team holds the 2 of hearts.
\<close>

definition playingRoom :: room where
  "playingRoom =
     \<lparr>rname = ''r'',
      players =
        [\<lparr>pid = ''h'', pname = ''Ann'', socketId = Some ''h'', team = TeamName ''red'',
          hand = [\<lparr>suit = ''hearts'', rank = ''ace'', setType = ''lower''\<rparr>],
          isHost = True, connected = False, canClaimTurn = False\<rparr>,
         \<lparr>pid = ''p'', pname = ''Bob'', socketId = None, team = TeamName ''blue'',
          hand = [\<lparr>suit = ''hearts'', rank = ''2'', setType = ''lower''\<rparr>],
          isHost = False, connected = True, canClaimTurn = False\<rparr>],
      maxPlayers = 2, status = ''waiting'', teams = ([], []), currentTurn = None, deck = [],
      capturedSets = TeamObject [] [], lastAction = None, playerCount = None, adminId = None,
      currentTurnPlayerId = Some ''h'', gameStatus = Some ''playing'', winner = None\<rparr>"

text \<open>The same room after Ann has asked Bob for the 2 of hearts.\<close>

definition afterRequest :: room where
  "afterRequest = playingRoom\<lparr>lastAction := Some ''Ann got the 2 of hearts from Bob'',
     players :=
        [\<lparr>pid = ''h'', pname = ''Ann'', socketId = Some ''h'', team = TeamName ''red'',
          hand = [\<lparr>suit = ''hearts'', rank = ''ace'', setType = ''lower''\<rparr>,
                  \<lparr>suit = ''hearts'', rank = ''2'', setType = ''lower''\<rparr>],
          isHost = True, connected = False, canClaimTurn = False\<rparr>,
         \<lparr>pid = ''p'', pname = ''Bob'', socketId = None, team = TeamName ''blue'',
          hand = [],
          isHost = False, connected = True, canClaimTurn = False\<rparr>],
     currentTurnPlayerId := Some ''p''\<rparr>"

text \<open>
  Room \<open>r1\<close> with eight players, four in each team, as the handlers build it from the
  messages of \<open>fourAgainstFour\<close>.
\<close>

definition fullRoom :: room where
  "fullRoom =
     \<lparr>rname = ''r1'',
      players =
        [\<lparr>pid = ''h'', pname = ''Ann'', socketId = Some ''h'', team = TeamName ''red'', hand = [],
          isHost = True, connected = False, canClaimTurn = False\<rparr>,
         \<lparr>pid = ''p1'', pname = ''Bob'', socketId = None, team = TeamName ''red'', hand = [],
          isHost = False, connected = True, canClaimTurn = False\<rparr>,
         \<lparr>pid = ''p2'', pname = ''Cat'', socketId = None, team = TeamName ''red'', hand = [],
          isHost = False, connected = True, canClaimTurn = False\<rparr>,
         \<lparr>pid = ''p3'', pname = ''Dan'', socketId = None, team = TeamName ''red'', hand = [],
          isHost = False, connected = True, canClaimTurn = False\<rparr>,
         \<lparr>pid = ''p4'', pname = ''Eve'', socketId = None, team = TeamName ''blue'', hand = [],
          isHost = False, connected = True, canClaimTurn = False\<rparr>,
         \<lparr>pid = ''p5'', pname = ''Fay'', socketId = None, team = TeamName ''blue'', hand = [],
          isHost = False, connected = True, canClaimTurn = False\<rparr>,
         \<lparr>pid = ''p6'', pname = ''Gus'', socketId = None, team = TeamName ''blue'', hand = [],
          isHost = False, connected = True, canClaimTurn = False\<rparr>,
         \<lparr>pid = ''p7'', pname = ''Hal'', socketId = None, team = TeamName ''blue'', hand = [],
          isHost = False, connected = True, canClaimTurn = False\<rparr>],
      maxPlayers = 8, status = ''waiting'', teams = ([], []), currentTurn = None, deck = [],
      capturedSets = TeamObject [] [], lastAction = None, playerCount = None, adminId = None,
      currentTurnPlayerId = None, gameStatus = None, winner = None\<rparr>"

text \<open>The same room with the two properties that \<^verbatim>\<open>startGame\<close> reads set by hand.\<close>

definition readyRoom :: room where
  "readyRoom = fullRoom\<lparr>playerCount := Some 8, adminId := Some ''h''\<rparr>"

text \<open>
  Draws of \<^verbatim>\<open>Math.random()\<close> under which the shuffle only exchanges the last card with
  the first: the draw of iteration 47 is 0, which gives index 0, and the draw of any other
  iteration \<open>i\<close> is \<open>i / (i + 1)\<close>, which gives index \<open>i\<close>.
\<close>

definition oneSwap :: "nat \<Rightarrow> rat" where
  "oneSwap i = (if i = 47 then 0 else of_nat i / of_nat (Suc i))"

text \<open>
  The room that \<^verbatim>\<open>startGame\<close> makes of \<open>readyRoom\<close> with these draws: every player holds
  one set of the deck, but Ann holds the king of spades in place of the ace of hearts and
  Hal the ace of hearts in place of the king of spades.
\<close>

definition dealtHands :: room where
  "dealtHands = readyRoom\<lparr>players :=
        [\<lparr>pid = ''h'', pname = ''Ann'', socketId = Some ''h'', team = TeamName ''red'',
          hand = \<lparr>suit = ''spades'', rank = ''king'', setType = ''upper''\<rparr> #
                 setCards ''lower'' [''2'', ''3'', ''4'', ''5'', ''6''] ''hearts'',
          isHost = True, connected = False, canClaimTurn = False\<rparr>,
         \<lparr>pid = ''p1'', pname = ''Bob'', socketId = None, team = TeamName ''red'',
          hand = setCards ''lower'' lowerRanks ''diamonds'',
          isHost = False, connected = True, canClaimTurn = False\<rparr>,
         \<lparr>pid = ''p2'', pname = ''Cat'', socketId = None, team = TeamName ''red'',
          hand = setCards ''lower'' lowerRanks ''clubs'',
          isHost = False, connected = True, canClaimTurn = False\<rparr>,
         \<lparr>pid = ''p3'', pname = ''Dan'', socketId = None, team = TeamName ''red'',
          hand = setCards ''lower'' lowerRanks ''spades'',
          isHost = False, connected = True, canClaimTurn = False\<rparr>,
         \<lparr>pid = ''p4'', pname = ''Eve'', socketId = None, team = TeamName ''blue'',
          hand = setCards ''upper'' upperRanks ''hearts'',
          isHost = False, connected = True, canClaimTurn = False\<rparr>,
         \<lparr>pid = ''p5'', pname = ''Fay'', socketId = None, team = TeamName ''blue'',
          hand = setCards ''upper'' upperRanks ''diamonds'',
          isHost = False, connected = True, canClaimTurn = False\<rparr>,
         \<lparr>pid = ''p6'', pname = ''Gus'', socketId = None, team = TeamName ''blue'',
          hand = setCards ''upper'' upperRanks ''clubs'',
          isHost = False, connected = True, canClaimTurn = False\<rparr>,
         \<lparr>pid = ''p7'', pname = ''Hal'', socketId = None, team = TeamName ''blue'',
          hand = setCards ''upper'' [''8'', ''9'', ''10'', ''jack'', ''queen''] ''spades'' @
                 [\<lparr>suit = ''hearts'', rank = ''ace'', setType = ''lower''\<rparr>],
          isHost = False, connected = True, canClaimTurn = False\<rparr>],
      currentTurnPlayerId := Some ''h'',
      gameStatus := Some ''playing''\<rparr>"

text \<open>Ann asks Hal for the ace of hearts, then Hal asks Ann for the king of spades.\<close>

definition twoRequests :: "(string \<times> action) list" where
  "twoRequests =
     [(''h'', RequestCard ''r1'' ''p7'' ''hearts'' ''ace'' ''lower''),
      (''p7'', RequestCard ''r1'' ''h'' ''spades'' ''king'' ''upper'')]"


section \<open>Properties of the deck builder\<close>

lemma mset_swap_list: "i < length xs \<Longrightarrow> j < length xs \<Longrightarrow> mset (swap i j xs) = mset xs"
  by (simp add: swap_def mset_swap)

lemma length_swap_list: "length (swap i j xs) = length xs"
  by (simp add: swap_def)

lemma draw_le: fixes u :: rat assumes "0 \<le> u" "u < 1" shows "nat \<lfloor>u * of_nat (Suc n)\<rfloor> \<le> n"
proof -
  have pos: "(0::rat) < of_nat (Suc n)" by simp
  have "u * of_nat (Suc n) < 1 * of_nat (Suc n)"
    using assms(2) pos by (rule mult_strict_right_mono)
  then have "\<lfloor>u * of_nat (Suc n)\<rfloor> < int (Suc n)" by (simp add: floor_less_iff)
  then show ?thesis by linarith
qed

lemma mset_shuffleLoop:
  "unitInterval rnd \<Longrightarrow> n < length xs \<Longrightarrow> mset (shuffleLoop rnd n xs) = mset xs"
proof (induction n arbitrary: xs)
  case 0 then show ?case by simp
next
  case (Suc n)
  have "nat \<lfloor>rnd (Suc n) * of_nat (Suc (Suc n))\<rfloor> \<le> Suc n"
    using Suc.prems(1) draw_le[of "rnd (Suc n)" "Suc n"] by (simp add: unitInterval_def)
  then show ?case using Suc by (simp add: mset_swap_list length_swap_list)
qed

lemma length_orderedDeck: "length orderedDeck = 48"
  by (simp add: orderedDeck_def setCards_def suits_def lowerRanks_def upperRanks_def)

lemma distinct_orderedDeck: "distinct orderedDeck"
  by (simp add: orderedDeck_def setCards_def suits_def lowerRanks_def upperRanks_def)

lemma set_setCards:
  "set (setCards st ranks s) = {c. suit c = s \<and> setType c = st \<and> rank c \<in> set ranks}"
proof (rule set_eqI)
  fix c :: card
  show "c \<in> set (setCards st ranks s) \<longleftrightarrow>
        c \<in> {c. suit c = s \<and> setType c = st \<and> rank c \<in> set ranks}"
    by (cases c) (auto simp: setCards_def)
qed

lemma set_orderedDeck: "set orderedDeck = {c. suit c \<in> set suits \<and>
   (setType c = ''lower'' \<and> rank c \<in> set lowerRanks \<or> setType c = ''upper'' \<and> rank c \<in> set upperRanks)}"
  by (auto simp: orderedDeck_def set_setCards)

lemma mset_createAndShuffleDeck:
  "unitInterval rnd \<Longrightarrow> mset (createAndShuffleDeck rnd) = mset orderedDeck"
  unfolding createAndShuffleDeck_def by (rule mset_shuffleLoop) (simp_all add: length_orderedDeck)

text \<open>
  Claim C9. Whatever numbers \<^verbatim>\<open>Math.random()\<close> returns (in its range, from 0 up to but not
  including 1), \<^verbatim>\<open>createAndShuffleDeck\<close> returns 48 cards, no two of them equal, that are a
  permutation of the deck built by the two nested loops; its cards are exactly the six
  ranks of each of the eight sets (four suits, lower and upper).
\<close>

theorem createAndShuffleDeck_permutation:
  assumes "unitInterval rnd"
  shows "length (createAndShuffleDeck rnd) = 48
       \<and> distinct (createAndShuffleDeck rnd)
       \<and> mset (createAndShuffleDeck rnd) = mset orderedDeck
       \<and> set (createAndShuffleDeck rnd) =
           {c. suit c \<in> set suits \<and>
               (setType c = ''lower'' \<and> rank c \<in> set lowerRanks \<or>
                setType c = ''upper'' \<and> rank c \<in> set upperRanks)}"
proof -
  have m: "mset (createAndShuffleDeck rnd) = mset orderedDeck"
    using assms by (rule mset_createAndShuffleDeck)
  have l: "length (createAndShuffleDeck rnd) = 48"
    using mset_eq_length[OF m] by (simp add: length_orderedDeck)
  have d: "distinct (createAndShuffleDeck rnd)"
    using mset_eq_imp_distinct_iff[OF m] distinct_orderedDeck by simp
  have s: "set (createAndShuffleDeck rnd) = set orderedDeck"
    using mset_eq_setD[OF m] .
  show ?thesis using m l d s set_orderedDeck by simp
qed

theorem createAndShuffleDeck_permutation_witness:
  "unitInterval (\<lambda>i. 1 / 2)
   \<and> length (createAndShuffleDeck (\<lambda>i. 1 / 2)) = 48
   \<and> distinct (createAndShuffleDeck (\<lambda>i. 1 / 2))
   \<and> mset (createAndShuffleDeck (\<lambda>i. 1 / 2)) = mset orderedDeck"
proof -
  have u: "unitInterval (\<lambda>i. 1 / 2)" by (simp add: unitInterval_def)
  show ?thesis using u createAndShuffleDeck_permutation[OF u] by simp
qed

section \<open>The win evaluator\<close>

text \<open>
  Claim C7, amended. \<^verbatim>\<open>checkWinCondition\<close> counts the entries of red and of blue. It returns
  a team exactly when that team has at least three entries and strictly more than the
  other, a draw exactly when both have at least three and equally many, and no winner
  exactly when both have fewer than three. So three entries against two yield the team
  with three as the winner, three against three a draw, and three against one the team
  with three.
\<close>

theorem checkWinCondition_rule:
  "(checkWinCondition cs = Some ''red'' \<longleftrightarrow>
      countTeam ''red'' cs \<ge> 3 \<and> countTeam ''red'' cs > countTeam ''blue'' cs)
   \<and> (checkWinCondition cs = Some ''blue'' \<longleftrightarrow>
      countTeam ''blue'' cs \<ge> 3 \<and> countTeam ''blue'' cs > countTeam ''red'' cs)
   \<and> (checkWinCondition cs = Some ''draw'' \<longleftrightarrow>
      countTeam ''red'' cs \<ge> 3 \<and> countTeam ''blue'' cs \<ge> 3 \<and> countTeam ''red'' cs = countTeam ''blue'' cs)
   \<and> (checkWinCondition cs = None \<longleftrightarrow> countTeam ''red'' cs < 3 \<and> countTeam ''blue'' cs < 3)
   \<and> (countTeam ''red'' cs = 3 \<and> countTeam ''blue'' cs = 2 \<longrightarrow> checkWinCondition cs = Some ''red'')
   \<and> (countTeam ''red'' cs = 3 \<and> countTeam ''blue'' cs = 3 \<longrightarrow> checkWinCondition cs = Some ''draw'')
   \<and> (countTeam ''red'' cs = 3 \<and> countTeam ''blue'' cs = 1 \<longrightarrow> checkWinCondition cs = Some ''red'')"
  by (auto simp: checkWinCondition_def countTeam_def Let_def)

theorem checkWinCondition_rule_witness:
  "countTeam ''red'' threeRedTwoBlue = 3 \<and> countTeam ''blue'' threeRedTwoBlue = 2
   \<and> checkWinCondition threeRedTwoBlue = Some ''red''"
  using checkWinCondition_rule[of threeRedTwoBlue]
  by (simp add: countTeam_def threeRedTwoBlue_def)

text \<open>
  Claim C7 as stated says that three entries against two yield no winner. On the code
  they yield the team with three entries.
\<close>

theorem three_two_counterexample:
  "countTeam ''red'' threeRedTwoBlue = 3 \<and> countTeam ''blue'' threeRedTwoBlue = 2
   \<and> checkWinCondition threeRedTwoBlue \<noteq> None"
  by (simp add: checkWinCondition_def countTeam_def threeRedTwoBlue_def)

section \<open>Rooms of a running server\<close>

text \<open>
  Every room of a server that started with the empty room map is pristine, whatever
  messages it has handled: no handler defines \<^verbatim>\<open>adminId\<close> or \<^verbatim>\<open>playerCount\<close>, hence
  \<^verbatim>\<open>startGame\<close> never gets past its first two checks, hence no turn holder is ever set.
\<close>

lemma list_all_update:
  "list_all P xs \<Longrightarrow> P x \<Longrightarrow> list_all P (xs[i := x])"
  by (induction xs arbitrary: i) (auto split: nat.splits)

lemma findIndex_Some: "findIndex P xs = Some i \<Longrightarrow> i < length xs \<and> P (xs ! i) \<and> (\<forall>j<i. \<not> P (xs ! j))"
proof (induction xs arbitrary: i)
  case Nil then show ?case by simp
next
  case (Cons x xs)
  show ?case
  proof (cases "P x")
    case True with Cons.prems show ?thesis by simp
  next
    case False
    with Cons.prems obtain k where k: "findIndex P xs = Some k" "i = Suc k" by auto
    from Cons.IH[OF k(1)] False k(2) show ?thesis by (auto simp: less_Suc_eq_0_disj)
  qed
qed

lemma findIndex_None: "findIndex P xs = None \<longleftrightarrow> (\<forall>x\<in>set xs. \<not> P x)"
  by (induction xs) auto

lemma createRoom_pristine:
  "allPristine rooms \<Longrightarrow> allPristine (snd (createRoom sid playerName roomName cnt rooms))"
  by (auto simp: allPristine_def createRoom_def pristine_def split: if_splits)

lemma joinRoom_pristine:
  "allPristine rooms \<Longrightarrow> allPristine (snd (joinRoom sid playerName roomName rooms))"
  by (auto simp: allPristine_def joinRoom_def pristine_def split: if_splits option.splits)

lemma pristine_team_update:
  "pristine room \<Longrightarrow>
   pristine (room\<lparr>players := (players room)[i := (players room ! i)\<lparr>team := tm\<rparr>]\<rparr>)"
  by (cases "i < length (players room)") (simp_all add: pristine_def list_all_length nth_list_update)

lemma joinTeam_pristine:
  "allPristine rooms \<Longrightarrow> allPristine (snd (joinTeam sid roomName tm rooms))"
  unfolding allPristine_def joinTeam_def Let_def
  by (auto split: option.splits intro: pristine_team_update)

lemma startGame_pristine: "allPristine rooms \<Longrightarrow> startGame rnd sid roomName rooms =
    (if rooms roomName = None then (Err RoomNotFound, rooms) else (Err NotAdmin, rooms))"
  by (auto simp: allPristine_def startGame_def pristine_def split: option.splits)

lemma requestCard_pristine: "allPristine rooms \<Longrightarrow>
   snd (requestCard sid roomName targetPlayerId s r st rooms) = rooms"
  by (auto simp: allPristine_def requestCard_def pristine_def Let_def split: option.splits)

lemma declareSet_pristine: "allPristine rooms \<Longrightarrow> snd (declareSet sid roomName s st rooms) = rooms"
  by (auto simp: allPristine_def declareSet_def pristine_def Let_def split: option.splits)

lemma claimTurn_pristine: "allPristine rooms \<Longrightarrow> snd (claimTurn sid roomName rooms) = rooms"
  unfolding allPristine_def claimTurn_def pristine_def Let_def
  by (auto split: option.splits dest!: findIndex_Some simp: list_all_length)

lemma handle_pristine: "allPristine rooms \<Longrightarrow> allPristine (snd (handle rnd sid a rooms))"
  by (cases a) (simp_all add: createRoom_pristine joinRoom_pristine joinTeam_pristine
      startGame_pristine requestCard_pristine declareSet_pristine claimTurn_pristine)

lemma run_pristine: "allPristine rooms \<Longrightarrow> allPristine (run rnds msgs rooms)"
proof (induction msgs arbitrary: rnds rooms)
  case Nil then show ?case by simp
next
  case (Cons m msgs)
  obtain sid a where m: "m = (sid, a)" by (cases m)
  show ?case unfolding m run.simps
    by (rule Cons.IH) (rule handle_pristine[OF Cons.prems])
qed

lemma run_from_empty_pristine: "allPristine (run rnds msgs Map.empty)"
  by (rule run_pristine) (simp add: allPristine_def)

lemma startGame_never_succeeds:
  "startGame rnd sid roomName (run rnds msgs Map.empty) =
    (if run rnds msgs Map.empty roomName = None then (Err RoomNotFound, run rnds msgs Map.empty)
     else (Err NotAdmin, run rnds msgs Map.empty))"
  by (rule startGame_pristine) (rule run_from_empty_pristine)

section \<open>Joining a room\<close>

lemma joinRoom_absent: "rooms roomName = None \<Longrightarrow>
   joinRoom sid playerName roomName rooms = (Err RoomNotFound, rooms)"
  by (simp add: joinRoom_def)

lemma joinRoom_never_full:
  "fst (joinRoom sid playerName roomName (run rnds msgs Map.empty)) \<noteq> Err RoomFull"
  using run_from_empty_pristine[of rnds msgs]
  by (auto simp: joinRoom_def allPristine_def pristine_def split: option.splits)

text \<open>
  Claim C3 says that a join fails with RoomFull and leaves the room unchanged when the
  room already has as many players as the capacity fixed at creation. Socket \<open>h\<close> creates
  room \<open>r\<close> with capacity 1, then socket \<open>p\<close> joins: the code compares with
  \<^verbatim>\<open>room.playerCount\<close>, which \<^verbatim>\<open>createRoom\<close> never defines (it stores the capacity as
  \<^verbatim>\<open>maxPlayers\<close>), answers \<^verbatim>\<open>joinedRoom\<close> and the room has two players.
\<close>

theorem joinRoom_full_room:
  "map_option maxPlayers (smallRoom ''r'') = Some 1
   \<and> map_option (length \<circ> players) (smallRoom ''r'') = Some 1
   \<and> fst (joinRoom ''p'' ''Bob'' ''r'' smallRoom) = JoinedRoom ''r'' ''p''
   \<and> map_option (length \<circ> players) (snd (joinRoom ''p'' ''Bob'' ''r'' smallRoom) ''r'') = Some 2"
  by (simp add: smallRoom_def createRoom_def joinRoom_def)

section \<open>Starting a game\<close>

lemma length_dealCards: "length (dealCards d ps) = length ps"
  by (induction ps arbitrary: d) simp_all

lemma hands_dealCards: "concat (map hand (dealCards d ps)) = take (6 * length ps) d"
proof (induction ps arbitrary: d)
  case Nil then show ?case by simp
next
  case (Cons p ps)
  have "take 6 d @ take (6 * length ps) (drop 6 d) = take (6 + 6 * length ps) d"
    by (simp add: take_add)
  with Cons show ?case by simp
qed

lemma six_each_dealCards:
  "6 * length ps \<le> length d \<Longrightarrow> p \<in> set (dealCards d ps) \<Longrightarrow> length (hand p) = 6"
proof (induction ps arbitrary: d)
  case Nil then show ?case by simp
next
  case (Cons q ps)
  from Cons.prems(1) have "6 * length ps \<le> length (drop 6 d)" by simp
  from Cons.IH[OF this] Cons.prems show ?case by auto
qed

lemma pid_dealCards: "map pid (dealCards d ps) = map pid ps"
  by (induction ps arbitrary: d) simp_all

lemma startGame_success:
  assumes "fst (startGame rnd sid rn rooms) = GameStarted room1"
  shows "\<exists>room0. rooms rn = Some room0 \<and> adminId room0 = Some sid
     \<and> playerCount room0 = Some (length (players room0))
     \<and> length (filter (\<lambda>p. team p = TeamName ''red'') (players room0)) =
        length (filter (\<lambda>p. team p = TeamName ''blue'') (players room0))
     \<and> players room0 \<noteq> []
     \<and> players room1 = dealCards (createAndShuffleDeck rnd) (players room0)
     \<and> currentTurnPlayerId room1 = Some (pid (hd (players room0)))
     \<and> gameStatus room1 = Some ''playing''
     \<and> status room1 = status room0
     \<and> snd (startGame rnd sid rn rooms) = rooms(rn \<mapsto> room1)"
proof -
  from assms obtain room0 where room0: "rooms rn = Some room0"
    by (auto simp: startGame_def split: option.splits)
  show ?thesis
  proof (cases "players room0")
    case Nil
    with assms room0 show ?thesis
      by (simp add: startGame_def Let_def split: if_splits)
  next
    case (Cons p ps)
    with assms room0 show ?thesis
      by (auto simp: startGame_def Let_def split: if_splits)
  qed
qed

text \<open>
  Where the checks of \<^verbatim>\<open>startGame\<close> pass and the room has eight players, the handler deals
  the whole shuffled deck, six cards to each player in array order, gives the turn to the
  first player and sets \<^verbatim>\<open>gameStatus\<close>.
\<close>

lemma startGame_deals:
  assumes "fst (startGame rnd sid rn rooms) = GameStarted room1"
    and "length (players room1) = 8"
    and "unitInterval rnd"
  shows "allCards room1 = createAndShuffleDeck rnd
     \<and> mset (allCards room1) = mset orderedDeck
     \<and> (\<forall>p\<in>set (players room1). length (hand p) = 6)
     \<and> currentTurnPlayerId room1 = Some (pid (players room1 ! 0))
     \<and> gameStatus room1 = Some ''playing''"
proof -
  from startGame_success[OF assms(1)] obtain room0 :: room where
    ne: "players room0 \<noteq> []"
    and r1: "players room1 = dealCards (createAndShuffleDeck rnd) (players room0)"
    and t1: "currentTurnPlayerId room1 = Some (pid (hd (players room0)))"
    and g1: "gameStatus room1 = Some ''playing''"
    by blast
  have m: "mset (createAndShuffleDeck rnd) = mset orderedDeck"
    using assms(3) by (rule mset_createAndShuffleDeck)
  have l: "length (createAndShuffleDeck rnd) = 48"
    using mset_eq_length[OF m] by (simp add: length_orderedDeck)
  have n: "length (players room0) = 8" using assms(2) r1 by (simp add: length_dealCards)
  have a: "allCards room1 = createAndShuffleDeck rnd"
    using l n by (simp add: allCards_def r1 hands_dealCards)
  have six: "\<forall>p\<in>set (players room1). length (hand p) = 6"
    using six_each_dealCards[of "players room0" "createAndShuffleDeck rnd"] l n r1 by simp
  have "map pid (players room1) ! 0 = map pid (players room0) ! 0"
    by (simp add: r1 pid_dealCards)
  then have "pid (players room1 ! 0) = pid (hd (players room0))"
    using ne assms(2) n by (simp add: hd_conv_nth)
  with t1 have t: "currentTurnPlayerId room1 = Some (pid (players room1 ! 0))" by simp
  show ?thesis using a m six t g1 by simp
qed

lemma fourAgainstFour_run: "run rnds fourAgainstFour Map.empty = [''r1'' \<mapsto> fullRoom]"
  by (simp add: fourAgainstFour_def eightJoined_def createRoom_def joinRoom_def joinTeam_def
      fullRoom_def Let_def)

text \<open>
  Claim C1 describes the start of a game by the host of a full room with equal teams.
  Socket \<open>h\<close> creates room \<open>r1\<close> for eight players, seven sockets join, four players
  join red and four join blue; this gives the room \<open>fullRoom\<close>. Then \<open>h\<close> sends
  \<^verbatim>\<open>startGame\<close>: the code answers that only the admin can start the game and changes
  nothing, because \<^verbatim>\<open>createRoom\<close> marks the host with \<^verbatim>\<open>isHost\<close> on the player and never
  defines \<^verbatim>\<open>room.adminId\<close>. With five players against three the answer is the same, not
  that the teams are unbalanced.
\<close>

theorem startGame_by_host:
  "run rnds fourAgainstFour Map.empty = [''r1'' \<mapsto> fullRoom]
   \<and> startGame rnd ''h'' ''r1'' [''r1'' \<mapsto> fullRoom] = (Err NotAdmin, [''r1'' \<mapsto> fullRoom])
   \<and> startGame rnd ''h'' ''r1'' (run rnds fiveAgainstThree Map.empty)
     = (Err NotAdmin, run rnds fiveAgainstThree Map.empty)"
proof -
  have a: "run rnds fourAgainstFour Map.empty = [''r1'' \<mapsto> fullRoom]"
    by (rule fourAgainstFour_run)
  have b: "startGame rnd ''h'' ''r1'' [''r1'' \<mapsto> fullRoom] = (Err NotAdmin, [''r1'' \<mapsto> fullRoom])"
    by (simp add: startGame_def fullRoom_def)
  have "run rnds fiveAgainstThree Map.empty ''r1'' \<noteq> None"
    by (simp add: fiveAgainstThree_def eightJoined_def createRoom_def joinRoom_def joinTeam_def Let_def)
  then have c: "startGame rnd ''h'' ''r1'' (run rnds fiveAgainstThree Map.empty)
     = (Err NotAdmin, run rnds fiveAgainstThree Map.empty)"
    by (simp add: startGame_never_succeeds)
  show ?thesis using a b c by simp
qed

section \<open>Requesting a card\<close>

lemma findIndex_ex: "list_ex P xs \<Longrightarrow> \<exists>k. findIndex P xs = Some k"
  by (cases "findIndex P xs") (auto simp: findIndex_None list_ex_iff)

lemma requestCard_unfold:
  assumes "rooms rn = Some room"
    and "findIndex (\<lambda>p. pid p = sid) (players room) = Some ri"
    and "findIndex (\<lambda>p. pid p = tid) (players room) = Some ti"
  shows "requestCard sid rn tid s r st rooms =
     (if Some sid \<noteq> currentTurnPlayerId room then (Err NotYourTurn, rooms)
      else if \<not> isValidRequest (players room ! ri) (players room ! ti) \<lparr>suit = s, rank = r, setType = st\<rparr>
      then (Err InvalidRequest, rooms)
      else
        (let room' =
          (if list_ex (isCard s r st) (hand (players room ! ti)) then
             (case transferCard (players room ! ti) (players room ! ri) s r st of
                (_, fromPlayer', toPlayer') \<Rightarrow>
                   room\<lparr>players := (players room)[ti := fromPlayer', ri := toPlayer'],
                        lastAction := Some (gotMessage (players room ! ri) (players room ! ti) r s),
                        currentTurnPlayerId := Some tid\<rparr>)
           else room\<lparr>lastAction := Some (askedMessage (players room ! ri) (players room ! ti) r s),
                     currentTurnPlayerId := Some tid\<rparr>)
         in (GameUpdate room', rooms(rn \<mapsto> room'))))"
proof -
  have "pid (players room ! ri) = sid" "pid (players room ! ti) = tid"
    using findIndex_Some[OF assms(2)] findIndex_Some[OF assms(3)] by simp_all
  then show ?thesis using assms by (simp add: requestCard_def Let_def)
qed

lemma requestCard_rejected:
  "fst (requestCard sid rn tid s r st rooms) = Err e \<Longrightarrow>
   snd (requestCard sid rn tid s r st rooms) = rooms"
  by (auto simp: requestCard_def Let_def split: option.splits if_splits prod.splits)

lemma requestCard_accepted:
  assumes "fst (requestCard sid rn tid s r st rooms) = GameUpdate room'"
  shows "\<exists>room ri ti. rooms rn = Some room
     \<and> findIndex (\<lambda>p. pid p = sid) (players room) = Some ri
     \<and> findIndex (\<lambda>p. pid p = tid) (players room) = Some ti
     \<and> currentTurnPlayerId room = Some sid
     \<and> isValidRequest (players room ! ri) (players room ! ti) \<lparr>suit = s, rank = r, setType = st\<rparr>"
  using assms
  by (auto simp: requestCard_def Let_def split: option.splits if_splits prod.splits dest!: findIndex_Some)

lemma transferCard_found:
  assumes "list_ex (isCard s r st) (hand fromPlayer)"
  shows "\<exists>k. findIndex (isCard s r st) (hand fromPlayer) = Some k
     \<and> k < length (hand fromPlayer)
     \<and> hand fromPlayer ! k = \<lparr>suit = s, rank = r, setType = st\<rparr>
     \<and> transferCard fromPlayer toPlayer s r st =
         (True,
          fromPlayer\<lparr>hand := take k (hand fromPlayer) @ drop (Suc k) (hand fromPlayer)\<rparr>,
          toPlayer\<lparr>hand := hand toPlayer @ [\<lparr>suit = s, rank = r, setType = st\<rparr>]\<rparr>)"
proof -
  from findIndex_ex[OF assms] obtain k where k: "findIndex (isCard s r st) (hand fromPlayer) = Some k" ..
  from findIndex_Some[OF k] have lt: "k < length (hand fromPlayer)"
    and c: "isCard s r st (hand fromPlayer ! k)" by simp_all
  have eq: "hand fromPlayer ! k = \<lparr>suit = s, rank = r, setType = st\<rparr>"
    using c by (cases "hand fromPlayer ! k") (simp add: isCard_def)
  show ?thesis using k lt eq by (simp add: transferCard_def)
qed

lemma mset_concat_update:
  "i < length xss \<Longrightarrow> mset (concat (xss[i := y])) + mset (xss ! i) = mset (concat xss) + mset y"
proof (induction xss arbitrary: i)
  case Nil then show ?case by simp
next
  case (Cons x xss)
  show ?case
  proof (cases i)
    case 0 then show ?thesis by simp
  next
    case (Suc k)
    with Cons.prems have "k < length xss" by simp
    from Cons.IH[OF this] Suc show ?thesis by (simp add: ac_simps)
  qed
qed

lemma mset_take_drop: "k < length h \<Longrightarrow> mset (take k h @ drop (Suc k) h) + {#h ! k#} = mset h"
proof -
  assume "k < length h"
  then have "h = take k h @ (h ! k) # drop (Suc k) h" by (rule id_take_nth_drop)
  then have "mset h = mset (take k h @ (h ! k) # drop (Suc k) h)" by simp
  then show ?thesis by simp
qed

text \<open>Moving one card between two different players keeps the cards of the room.\<close>

lemma mset_hands_move:
  assumes ti: "ti < length ps" and ri: "ri < length ps" and ne: "ri \<noteq> ti"
    and k: "k < length (hand (ps ! ti))"
  shows "mset (concat (map hand (ps[ti := (ps ! ti)\<lparr>hand := take k (hand (ps ! ti)) @ drop (Suc k) (hand (ps ! ti))\<rparr>,
                                    ri := (ps ! ri)\<lparr>hand := hand (ps ! ri) @ [hand (ps ! ti) ! k]\<rparr>])))
         = mset (concat (map hand ps))"
proof -
  let ?h = "hand (ps ! ti)"
  let ?c = "?h ! k"
  let ?hs = "map hand ps"
  let ?hs1 = "?hs[ti := take k ?h @ drop (Suc k) ?h]"
  let ?hs2 = "?hs1[ri := hand (ps ! ri) @ [?c]]"
  have a: "mset (concat ?hs1) + mset ?h = mset (concat ?hs) + mset (take k ?h @ drop (Suc k) ?h)"
    using mset_concat_update[of ti ?hs "take k ?h @ drop (Suc k) ?h"] ti by simp
  have "mset (concat ?hs2) + mset (?hs1 ! ri) = mset (concat ?hs1) + mset (hand (ps ! ri) @ [?c])"
    using mset_concat_update[of ri ?hs1 "hand (ps ! ri) @ [?c]"] ri by simp
  moreover have "?hs1 ! ri = hand (ps ! ri)" using ne ri by simp
  ultimately have b: "mset (concat ?hs2) = mset (concat ?hs1) + {#?c#}" by simp
  have "mset (concat ?hs1) + (mset (take k ?h @ drop (Suc k) ?h) + {#?c#})
        = mset (concat ?hs) + mset (take k ?h @ drop (Suc k) ?h)"
    using a mset_take_drop[OF k] by simp
  then have "mset (concat ?hs1) + {#?c#} = mset (concat ?hs)"
    by (simp add: ac_simps)
  with b have "mset (concat ?hs2) = mset (concat ?hs)" by simp
  then show ?thesis by (simp add: map_update)
qed

lemma isCard_eq: "isCard s r st c \<longleftrightarrow> c = \<lparr>suit = s, rank = r, setType = st\<rparr>"
  by (cases c) (auto simp: isCard_def)

lemma list_ex_isCard:
  "list_ex (isCard s r st) h \<longleftrightarrow> \<lparr>suit = s, rank = r, setType = st\<rparr> \<in> set h"
  by (auto simp: list_ex_iff isCard_eq)

lemma isValidRequest_iff:
  "isValidRequest rq tg \<lparr>suit = s, rank = r, setType = st\<rparr> \<longleftrightarrow>
     pid rq \<noteq> pid tg \<and> team rq \<noteq> team tg \<and> hand rq \<noteq> [] \<and> hand tg \<noteq> [] \<and>
     (\<exists>c\<in>set (hand rq). suit c = s \<and> setType c = st) \<and>
     \<lparr>suit = s, rank = r, setType = st\<rparr> \<notin> set (hand rq)"
  by (auto simp: isValidRequest_def list_ex_isCard) (auto simp: list_ex_iff)

lemma requestCard_success:
  assumes "fst (requestCard sid rn tid s r st rooms) = GameUpdate room'"
  shows "\<exists>room ri ti. rooms rn = Some room
     \<and> findIndex (\<lambda>p. pid p = sid) (players room) = Some ri
     \<and> findIndex (\<lambda>p. pid p = tid) (players room) = Some ti
     \<and> ri < length (players room) \<and> ti < length (players room) \<and> ri \<noteq> ti
     \<and> snd (requestCard sid rn tid s r st rooms) = rooms(rn \<mapsto> room')
     \<and> (if list_ex (isCard s r st) (hand (players room ! ti))
        then \<exists>k. findIndex (isCard s r st) (hand (players room ! ti)) = Some k
              \<and> k < length (hand (players room ! ti))
              \<and> hand (players room ! ti) ! k = \<lparr>suit = s, rank = r, setType = st\<rparr>
              \<and> room' = room\<lparr>players := (players room)
                    [ti := (players room ! ti)\<lparr>hand := take k (hand (players room ! ti)) @
                                                      drop (Suc k) (hand (players room ! ti))\<rparr>,
                     ri := (players room ! ri)\<lparr>hand := hand (players room ! ri) @
                                                      [\<lparr>suit = s, rank = r, setType = st\<rparr>]\<rparr>],
                  lastAction := Some (gotMessage (players room ! ri) (players room ! ti) r s),
                  currentTurnPlayerId := Some tid\<rparr>
        else room' = room\<lparr>lastAction := Some (askedMessage (players room ! ri) (players room ! ti) r s),
                          currentTurnPlayerId := Some tid\<rparr>)"
proof -
  from requestCard_accepted[OF assms] obtain room ri ti where
    room: "rooms rn = Some room"
    and ri: "findIndex (\<lambda>p. pid p = sid) (players room) = Some ri"
    and ti: "findIndex (\<lambda>p. pid p = tid) (players room) = Some ti"
    and turn: "currentTurnPlayerId room = Some sid"
    and valid: "isValidRequest (players room ! ri) (players room ! ti) \<lparr>suit = s, rank = r, setType = st\<rparr>"
    by blast
  note u = requestCard_unfold[where rooms=rooms and rn=rn and room=room and sid=sid and ri=ri and tid=tid and ti=ti and s=s and r=r and st=st, OF room ri ti]
  have lt: "ri < length (players room)" "ti < length (players room)"
    using findIndex_Some[OF ri] findIndex_Some[OF ti] by simp_all
  have ne: "ri \<noteq> ti" using valid by (auto simp: isValidRequest_iff)
  show ?thesis
  proof (cases "list_ex (isCard s r st) (hand (players room ! ti))")
    case True
    from transferCard_found[OF True, of "players room ! ri"] obtain k where
      k: "findIndex (isCard s r st) (hand (players room ! ti)) = Some k"
         "k < length (hand (players room ! ti))"
         "hand (players room ! ti) ! k = \<lparr>suit = s, rank = r, setType = st\<rparr>"
         "transferCard (players room ! ti) (players room ! ri) s r st =
           (True,
            (players room ! ti)\<lparr>hand := take k (hand (players room ! ti)) @ drop (Suc k) (hand (players room ! ti))\<rparr>,
            (players room ! ri)\<lparr>hand := hand (players room ! ri) @ [\<lparr>suit = s, rank = r, setType = st\<rparr>]\<rparr>)"
      by blast
    have "room' = room\<lparr>players := (players room)
                    [ti := (players room ! ti)\<lparr>hand := take k (hand (players room ! ti)) @
                                                      drop (Suc k) (hand (players room ! ti))\<rparr>,
                     ri := (players room ! ri)\<lparr>hand := hand (players room ! ri) @
                                                      [\<lparr>suit = s, rank = r, setType = st\<rparr>]\<rparr>],
                  lastAction := Some (gotMessage (players room ! ri) (players room ! ti) r s),
                  currentTurnPlayerId := Some tid\<rparr>"
      and "snd (requestCard sid rn tid s r st rooms) = rooms(rn \<mapsto> room')"
      using assms turn valid True k(4) unfolding u by (simp_all add: Let_def)
    then show ?thesis using room ri ti lt ne True k(1,2,3) by auto
  next
    case False
    have "room' = room\<lparr>lastAction := Some (askedMessage (players room ! ri) (players room ! ti) r s),
                          currentTurnPlayerId := Some tid\<rparr>"
      and "snd (requestCard sid rn tid s r st rooms) = rooms(rn \<mapsto> room')"
      using assms turn valid False unfolding u by (simp_all add: Let_def)
    then show ?thesis using room ri ti lt ne False by auto
  qed
qed

lemma requestCard_valid:
  assumes "rooms rn = Some room"
    and "findIndex (\<lambda>p. pid p = sid) (players room) = Some ri"
    and "findIndex (\<lambda>p. pid p = tid) (players room) = Some ti"
    and "currentTurnPlayerId room = Some sid"
    and "isValidRequest (players room ! ri) (players room ! ti) \<lparr>suit = s, rank = r, setType = st\<rparr>"
  shows "\<exists>room'. requestCard sid rn tid s r st rooms = (GameUpdate room', rooms(rn \<mapsto> room'))
     \<and> currentTurnPlayerId room' = Some tid
     \<and> (\<lparr>suit = s, rank = r, setType = st\<rparr> \<in> set (hand (players room ! ti)) \<longrightarrow>
          (\<exists>k. findIndex (isCard s r st) (hand (players room ! ti)) = Some k
             \<and> k < length (hand (players room ! ti))
             \<and> hand (players room ! ti) ! k = \<lparr>suit = s, rank = r, setType = st\<rparr>
             \<and> players room' = (players room)
                  [ti := (players room ! ti)\<lparr>hand := take k (hand (players room ! ti)) @
                                                    drop (Suc k) (hand (players room ! ti))\<rparr>,
                   ri := (players room ! ri)\<lparr>hand := hand (players room ! ri) @
                                                    [\<lparr>suit = s, rank = r, setType = st\<rparr>]\<rparr>]))
     \<and> (\<lparr>suit = s, rank = r, setType = st\<rparr> \<notin> set (hand (players room ! ti)) \<longrightarrow>
          players room' = players room)"
proof -
  note u = requestCard_unfold[where rooms=rooms and rn=rn and room=room and sid=sid and ri=ri
      and tid=tid and ti=ti and s=s and r=r and st=st, OF assms(1,2,3)]
  show ?thesis
  proof (cases "list_ex (isCard s r st) (hand (players room ! ti))")
    case True
    from transferCard_found[OF True, of "players room ! ri"] obtain k where
      k: "findIndex (isCard s r st) (hand (players room ! ti)) = Some k"
         "k < length (hand (players room ! ti))"
         "hand (players room ! ti) ! k = \<lparr>suit = s, rank = r, setType = st\<rparr>"
         "transferCard (players room ! ti) (players room ! ri) s r st =
           (True,
            (players room ! ti)\<lparr>hand := take k (hand (players room ! ti)) @ drop (Suc k) (hand (players room ! ti))\<rparr>,
            (players room ! ri)\<lparr>hand := hand (players room ! ri) @ [\<lparr>suit = s, rank = r, setType = st\<rparr>]\<rparr>)"
      by blast
    from True have mem: "\<lparr>suit = s, rank = r, setType = st\<rparr> \<in> set (hand (players room ! ti))"
      by (simp add: list_ex_isCard)
    show ?thesis unfolding u using assms(4,5) True k mem by (simp add: Let_def)
  next
    case False
    then have "\<lparr>suit = s, rank = r, setType = st\<rparr> \<notin> set (hand (players room ! ti))"
      by (simp add: list_ex_isCard)
    then show ?thesis unfolding u using assms(4,5) False by (simp add: Let_def)
  qed
qed

text \<open>
  The team check of \<^verbatim>\<open>isValidRequest\<close> is \<^verbatim>\<open>===\<close>: the host, whose team is \<^verbatim>\<open>null\<close>, and a
  player whose team is \<^verbatim>\<open>undefined\<close> are not teammates.
\<close>

lemma valid_between_null_and_undefined:
  assumes "team rq = TeamNull" and "team tg = TeamUndefined"
  shows "isValidRequest rq tg \<lparr>suit = s, rank = r, setType = st\<rparr> \<longleftrightarrow>
     pid rq \<noteq> pid tg \<and> hand rq \<noteq> [] \<and> hand tg \<noteq> [] \<and>
     (\<exists>c\<in>set (hand rq). suit c = s \<and> setType c = st) \<and>
     \<lparr>suit = s, rank = r, setType = st\<rparr> \<notin> set (hand rq)"
  using assms by (simp add: isValidRequest_iff)

lemma request_example:
  "requestCard ''h'' ''r'' ''p'' ''hearts'' ''2'' ''lower'' [''r'' \<mapsto> playingRoom]
     = (GameUpdate afterRequest, [''r'' \<mapsto> afterRequest])"
  by (simp add: requestCard_def playingRoom_def afterRequest_def isValidRequest_def isCard_def
      transferCard_def gotMessage_def Let_def)

lemma requestCard_player_missing:
  assumes "rooms rn = Some room"
    and "findIndex (\<lambda>p. pid p = sid) (players room) = None
         \<or> findIndex (\<lambda>p. pid p = tid) (players room) = None"
  shows "requestCard sid rn tid s r st rooms = (Err PlayerNotFound, rooms)"
  using assms by (auto simp: requestCard_def split: option.splits)

text \<open>
  Claim C4, amended. For every \<^verbatim>\<open>requestCard\<close> on an existing room in which both the
  requester and the target are found among the players: a requester who does not hold the
  turn is answered that it is not their turn; a requester who holds the turn is answered
  that the request is invalid exactly when \<^verbatim>\<open>isValidRequest\<close> is false, which is when the
  target is the requester or has the same team, when one of the two hands is empty, when
  the requester holds no card of the requested suit and set type, or when the requester
  already holds the requested card. A request that is answered with an error leaves the
  room map as it was. (A request that names an absent room or an absent player is
  answered that the room or the player was not found, before the turn is looked at.)
\<close>

theorem requestCard_rejections:
  assumes "rooms rn = Some room"
    and "findIndex (\<lambda>p. pid p = sid) (players room) = Some ri"
    and "findIndex (\<lambda>p. pid p = tid) (players room) = Some ti"
  shows "(Some sid \<noteq> currentTurnPlayerId room \<longrightarrow>
            fst (requestCard sid rn tid s r st rooms) = Err NotYourTurn)
     \<and> (Some sid = currentTurnPlayerId room \<longrightarrow>
           (fst (requestCard sid rn tid s r st rooms) = Err InvalidRequest \<longleftrightarrow>
            \<not> isValidRequest (players room ! ri) (players room ! ti) \<lparr>suit = s, rank = r, setType = st\<rparr>))
     \<and> (isValidRequest (players room ! ri) (players room ! ti) \<lparr>suit = s, rank = r, setType = st\<rparr> \<longleftrightarrow>
           pid (players room ! ri) \<noteq> pid (players room ! ti)
         \<and> team (players room ! ri) \<noteq> team (players room ! ti)
         \<and> hand (players room ! ri) \<noteq> []
         \<and> hand (players room ! ti) \<noteq> []
         \<and> (\<exists>c\<in>set (hand (players room ! ri)). suit c = s \<and> setType c = st)
         \<and> \<lparr>suit = s, rank = r, setType = st\<rparr> \<notin> set (hand (players room ! ri)))
     \<and> (\<forall>e. fst (requestCard sid rn tid s r st rooms) = Err e \<longrightarrow>
           snd (requestCard sid rn tid s r st rooms) = rooms)"
proof -
  note u = requestCard_unfold[where rooms=rooms and rn=rn and room=room and sid=sid and ri=ri
      and tid=tid and ti=ti and s=s and r=r and st=st, OF assms]
  have a: "Some sid \<noteq> currentTurnPlayerId room \<longrightarrow>
            fst (requestCard sid rn tid s r st rooms) = Err NotYourTurn"
    unfolding u by simp
  have b: "Some sid = currentTurnPlayerId room \<longrightarrow>
           (fst (requestCard sid rn tid s r st rooms) = Err InvalidRequest \<longleftrightarrow>
            \<not> isValidRequest (players room ! ri) (players room ! ti) \<lparr>suit = s, rank = r, setType = st\<rparr>)"
    unfolding u by (simp add: Let_def)
  have d: "\<forall>e. fst (requestCard sid rn tid s r st rooms) = Err e \<longrightarrow>
           snd (requestCard sid rn tid s r st rooms) = rooms"
    using requestCard_rejected by blast
  show ?thesis using a b d isValidRequest_iff by blast
qed

theorem requestCard_rejections_witness:
  "[''r'' \<mapsto> playingRoom] ''r'' = Some playingRoom
   \<and> findIndex (\<lambda>p. pid p = ''h'') (players playingRoom) = Some 0
   \<and> findIndex (\<lambda>p. pid p = ''p'') (players playingRoom) = Some 1
   \<and> Some ''h'' = currentTurnPlayerId playingRoom
   \<and> fst (requestCard ''h'' ''r'' ''p'' ''hearts'' ''ace'' ''lower'' [''r'' \<mapsto> playingRoom])
       = Err InvalidRequest
   \<and> snd (requestCard ''h'' ''r'' ''p'' ''hearts'' ''ace'' ''lower'' [''r'' \<mapsto> playingRoom])
       = [''r'' \<mapsto> playingRoom]
   \<and> Some ''p'' \<noteq> currentTurnPlayerId playingRoom
   \<and> fst (requestCard ''p'' ''r'' ''h'' ''hearts'' ''ace'' ''lower'' [''r'' \<mapsto> playingRoom])
       = Err NotYourTurn"
proof -
  have r: "[''r'' \<mapsto> playingRoom] ''r'' = Some playingRoom" by simp
  have i0: "findIndex (\<lambda>p. pid p = ''h'') (players playingRoom) = Some 0"
    by (simp add: playingRoom_def)
  have i1: "findIndex (\<lambda>p. pid p = ''p'') (players playingRoom) = Some 1"
    by (simp add: playingRoom_def)
  have t: "Some ''h'' = currentTurnPlayerId playingRoom" "Some ''p'' \<noteq> currentTurnPlayerId playingRoom"
    by (simp_all add: playingRoom_def)
  have inv: "\<not> isValidRequest (players playingRoom ! 0) (players playingRoom ! 1)
                \<lparr>suit = ''hearts'', rank = ''ace'', setType = ''lower''\<rparr>"
    by (simp add: isValidRequest_iff playingRoom_def)
  from requestCard_rejections[where rooms="[''r'' \<mapsto> playingRoom]" and rn="''r''"
      and room=playingRoom and sid="''h''" and ri=0 and tid="''p''" and ti=1
      and s="''hearts''" and r="''ace''" and st="''lower''", OF r i0 i1] t(1) inv
  have e1: "fst (requestCard ''h'' ''r'' ''p'' ''hearts'' ''ace'' ''lower'' [''r'' \<mapsto> playingRoom])
       = Err InvalidRequest"
    and e2: "snd (requestCard ''h'' ''r'' ''p'' ''hearts'' ''ace'' ''lower'' [''r'' \<mapsto> playingRoom])
       = [''r'' \<mapsto> playingRoom]"
    by blast+
  from requestCard_rejections[where rooms="[''r'' \<mapsto> playingRoom]" and rn="''r''"
      and room=playingRoom and sid="''p''" and ri=1 and tid="''h''" and ti=0
      and s="''hearts''" and r="''ace''" and st="''lower''", OF r i1 i0] t(2)
  have e3: "fst (requestCard ''p'' ''r'' ''h'' ''hearts'' ''ace'' ''lower'' [''r'' \<mapsto> playingRoom])
       = Err NotYourTurn"
    by blast
  show ?thesis using r i0 i1 t e1 e2 e3 by blast
qed

text \<open>
  Claim C4 as stated says that every request by a player other than the turn holder is
  answered that it is not their turn. Bob, who does not hold the turn, asks a player
  who is not in the room: the answer is that the player was not found. The same holds in
  a room that has just been created.
\<close>

theorem requestCard_absent_target_counterexample:
  "map_option currentTurnPlayerId ([''r'' \<mapsto> playingRoom] ''r'') = Some (Some ''h'')
   \<and> map_option (map pid \<circ> players) ([''r'' \<mapsto> playingRoom] ''r'') = Some [''h'', ''p'']
   \<and> fst (requestCard ''p'' ''r'' ''nobody'' ''hearts'' ''ace'' ''lower'' [''r'' \<mapsto> playingRoom])
       = Err PlayerNotFound
   \<and> fst (requestCard ''p'' ''r'' ''nobody'' ''hearts'' ''ace'' ''lower'' [''r'' \<mapsto> playingRoom])
       \<noteq> Err NotYourTurn
   \<and> map_option currentTurnPlayerId (smallRoom ''r'') = Some None
   \<and> map_option (map pid \<circ> players) (smallRoom ''r'') = Some [''h'']
   \<and> fst (requestCard ''h'' ''r'' ''nobody'' ''hearts'' ''ace'' ''lower'' smallRoom)
       = Err PlayerNotFound"
  by (simp add: requestCard_def playingRoom_def smallRoom_def createRoom_def)

text \<open>
  Claim C5. A \<^verbatim>\<open>requestCard\<close> is accepted exactly when the room, the requester and the
  target are found, the requester holds the turn and \<^verbatim>\<open>isValidRequest\<close> is true. After
  every such request the room map holds the emitted room and the turn is with the player
  who was asked. If that player held the requested card, the first such card has left
  their hand and is the last card of the requester's hand, and nothing else in the
  players array has changed; if not, the players array is as before.
\<close>

theorem requestCard_turn_passes:
  "(\<forall>room'. fst (requestCard sid rn tid s r st rooms) = GameUpdate room' \<longrightarrow>
      (\<exists>room ri ti. rooms rn = Some room
         \<and> findIndex (\<lambda>p. pid p = sid) (players room) = Some ri
         \<and> findIndex (\<lambda>p. pid p = tid) (players room) = Some ti
         \<and> currentTurnPlayerId room = Some sid
         \<and> isValidRequest (players room ! ri) (players room ! ti) \<lparr>suit = s, rank = r, setType = st\<rparr>))
   \<and> (\<forall>room ri ti. rooms rn = Some room
         \<and> findIndex (\<lambda>p. pid p = sid) (players room) = Some ri
         \<and> findIndex (\<lambda>p. pid p = tid) (players room) = Some ti
         \<and> currentTurnPlayerId room = Some sid
         \<and> isValidRequest (players room ! ri) (players room ! ti) \<lparr>suit = s, rank = r, setType = st\<rparr>
       \<longrightarrow>
        (\<exists>room'. requestCard sid rn tid s r st rooms = (GameUpdate room', rooms(rn \<mapsto> room'))
           \<and> currentTurnPlayerId room' = Some tid
           \<and> (\<lparr>suit = s, rank = r, setType = st\<rparr> \<in> set (hand (players room ! ti)) \<longrightarrow>
                (\<exists>k. findIndex (isCard s r st) (hand (players room ! ti)) = Some k
                   \<and> k < length (hand (players room ! ti))
                   \<and> hand (players room ! ti) ! k = \<lparr>suit = s, rank = r, setType = st\<rparr>
                   \<and> players room' = (players room)
                        [ti := (players room ! ti)\<lparr>hand := take k (hand (players room ! ti)) @
                                                          drop (Suc k) (hand (players room ! ti))\<rparr>,
                         ri := (players room ! ri)\<lparr>hand := hand (players room ! ri) @
                                                          [\<lparr>suit = s, rank = r, setType = st\<rparr>]\<rparr>]))
           \<and> (\<lparr>suit = s, rank = r, setType = st\<rparr> \<notin> set (hand (players room ! ti)) \<longrightarrow>
                players room' = players room)))"
proof (intro conjI allI impI)
  fix room'
  assume "fst (requestCard sid rn tid s r st rooms) = GameUpdate room'"
  then show "\<exists>room ri ti. rooms rn = Some room
         \<and> findIndex (\<lambda>p. pid p = sid) (players room) = Some ri
         \<and> findIndex (\<lambda>p. pid p = tid) (players room) = Some ti
         \<and> currentTurnPlayerId room = Some sid
         \<and> isValidRequest (players room ! ri) (players room ! ti) \<lparr>suit = s, rank = r, setType = st\<rparr>"
    by (rule requestCard_accepted)
next
  fix room :: room and ri ti
  assume a: "rooms rn = Some room
         \<and> findIndex (\<lambda>p. pid p = sid) (players room) = Some ri
         \<and> findIndex (\<lambda>p. pid p = tid) (players room) = Some ti
         \<and> currentTurnPlayerId room = Some sid
         \<and> isValidRequest (players room ! ri) (players room ! ti) \<lparr>suit = s, rank = r, setType = st\<rparr>"
  show "\<exists>room'. requestCard sid rn tid s r st rooms = (GameUpdate room', rooms(rn \<mapsto> room'))
           \<and> currentTurnPlayerId room' = Some tid
           \<and> (\<lparr>suit = s, rank = r, setType = st\<rparr> \<in> set (hand (players room ! ti)) \<longrightarrow>
                (\<exists>k. findIndex (isCard s r st) (hand (players room ! ti)) = Some k
                   \<and> k < length (hand (players room ! ti))
                   \<and> hand (players room ! ti) ! k = \<lparr>suit = s, rank = r, setType = st\<rparr>
                   \<and> players room' = (players room)
                        [ti := (players room ! ti)\<lparr>hand := take k (hand (players room ! ti)) @
                                                          drop (Suc k) (hand (players room ! ti))\<rparr>,
                         ri := (players room ! ri)\<lparr>hand := hand (players room ! ri) @
                                                          [\<lparr>suit = s, rank = r, setType = st\<rparr>]\<rparr>]))
           \<and> (\<lparr>suit = s, rank = r, setType = st\<rparr> \<notin> set (hand (players room ! ti)) \<longrightarrow>
                players room' = players room)"
    by (rule requestCard_valid[where rooms=rooms and rn=rn and room=room and sid=sid and ri=ri
          and tid=tid and ti=ti and s=s and r=r and st=st])
       (simp_all add: a)
qed

theorem requestCard_turn_passes_witness:
  "[''r'' \<mapsto> playingRoom] ''r'' = Some playingRoom
   \<and> findIndex (\<lambda>p. pid p = ''h'') (players playingRoom) = Some 0
   \<and> findIndex (\<lambda>p. pid p = ''p'') (players playingRoom) = Some 1
   \<and> currentTurnPlayerId playingRoom = Some ''h''
   \<and> isValidRequest (players playingRoom ! 0) (players playingRoom ! 1)
         \<lparr>suit = ''hearts'', rank = ''2'', setType = ''lower''\<rparr>
   \<and> \<lparr>suit = ''hearts'', rank = ''2'', setType = ''lower''\<rparr> \<in> set (hand (players playingRoom ! 1))
   \<and> (\<exists>room'. requestCard ''h'' ''r'' ''p'' ''hearts'' ''2'' ''lower'' [''r'' \<mapsto> playingRoom]
                  = (GameUpdate room', [''r'' \<mapsto> room'])
          \<and> currentTurnPlayerId room' = Some ''p''
          \<and> map hand (players room') =
               [[\<lparr>suit = ''hearts'', rank = ''ace'', setType = ''lower''\<rparr>,
                 \<lparr>suit = ''hearts'', rank = ''2'', setType = ''lower''\<rparr>], []])
   \<and> isValidRequest (players playingRoom ! 0) (players playingRoom ! 1)
         \<lparr>suit = ''hearts'', rank = ''3'', setType = ''lower''\<rparr>
   \<and> \<lparr>suit = ''hearts'', rank = ''3'', setType = ''lower''\<rparr> \<notin> set (hand (players playingRoom ! 1))
   \<and> (\<exists>room'. requestCard ''h'' ''r'' ''p'' ''hearts'' ''3'' ''lower'' [''r'' \<mapsto> playingRoom]
                  = (GameUpdate room', [''r'' \<mapsto> room'])
          \<and> currentTurnPlayerId room' = Some ''p''
          \<and> players room' = players playingRoom)"
proof -
  have r: "[''r'' \<mapsto> playingRoom] ''r'' = Some playingRoom" by simp
  have i0: "findIndex (\<lambda>p. pid p = ''h'') (players playingRoom) = Some 0"
    by (simp add: playingRoom_def)
  have i1: "findIndex (\<lambda>p. pid p = ''p'') (players playingRoom) = Some 1"
    by (simp add: playingRoom_def)
  have t: "currentTurnPlayerId playingRoom = Some ''h''" by (simp add: playingRoom_def)
  have v2: "isValidRequest (players playingRoom ! 0) (players playingRoom ! 1)
         \<lparr>suit = ''hearts'', rank = ''2'', setType = ''lower''\<rparr>"
    by (simp add: isValidRequest_iff playingRoom_def)
  have m2: "\<lparr>suit = ''hearts'', rank = ''2'', setType = ''lower''\<rparr> \<in> set (hand (players playingRoom ! 1))"
    by (simp add: playingRoom_def)
  have v3: "isValidRequest (players playingRoom ! 0) (players playingRoom ! 1)
         \<lparr>suit = ''hearts'', rank = ''3'', setType = ''lower''\<rparr>"
    by (simp add: isValidRequest_iff playingRoom_def)
  have m3: "\<lparr>suit = ''hearts'', rank = ''3'', setType = ''lower''\<rparr> \<notin> set (hand (players playingRoom ! 1))"
    by (simp add: playingRoom_def)
  have f2: "findIndex (isCard ''hearts'' ''2'' ''lower'') (hand (players playingRoom ! 1)) = Some 0"
    by (simp add: playingRoom_def isCard_def)
  note hit = requestCard_turn_passes[where sid="''h''" and rn="''r''" and tid="''p''"
      and s="''hearts''" and r="''2''" and st="''lower''" and rooms="[''r'' \<mapsto> playingRoom]",
      THEN conjunct2, rule_format, of playingRoom 0 1]
  have "\<exists>room'. requestCard ''h'' ''r'' ''p'' ''hearts'' ''2'' ''lower'' [''r'' \<mapsto> playingRoom]
                  = (GameUpdate room', [''r'' \<mapsto> playingRoom, ''r'' \<mapsto> room'])
          \<and> currentTurnPlayerId room' = Some ''p''
          \<and> (\<lparr>suit = ''hearts'', rank = ''2'', setType = ''lower''\<rparr> \<in> set (hand (players playingRoom ! 1)) \<longrightarrow>
                (\<exists>k. findIndex (isCard ''hearts'' ''2'' ''lower'') (hand (players playingRoom ! 1)) = Some k
                   \<and> k < length (hand (players playingRoom ! 1))
                   \<and> hand (players playingRoom ! 1) ! k = \<lparr>suit = ''hearts'', rank = ''2'', setType = ''lower''\<rparr>
                   \<and> players room' = (players playingRoom)
                        [1 := (players playingRoom ! 1)\<lparr>hand := take k (hand (players playingRoom ! 1)) @
                                                          drop (Suc k) (hand (players playingRoom ! 1))\<rparr>,
                         0 := (players playingRoom ! 0)\<lparr>hand := hand (players playingRoom ! 0) @
                                                          [\<lparr>suit = ''hearts'', rank = ''2'', setType = ''lower''\<rparr>]\<rparr>]))
          \<and> (\<lparr>suit = ''hearts'', rank = ''2'', setType = ''lower''\<rparr> \<notin> set (hand (players playingRoom ! 1)) \<longrightarrow>
                players room' = players playingRoom)"
    by (rule hit) (intro conjI r i0 i1 t v2)
  then obtain room2 where
    e2': "requestCard ''h'' ''r'' ''p'' ''hearts'' ''2'' ''lower'' [''r'' \<mapsto> playingRoom]
                  = (GameUpdate room2, [''r'' \<mapsto> playingRoom, ''r'' \<mapsto> room2])"
    and c2: "currentTurnPlayerId room2 = Some ''p''"
    and i2: "\<lparr>suit = ''hearts'', rank = ''2'', setType = ''lower''\<rparr> \<in> set (hand (players playingRoom ! 1)) \<longrightarrow>
                (\<exists>k. findIndex (isCard ''hearts'' ''2'' ''lower'') (hand (players playingRoom ! 1)) = Some k
                   \<and> k < length (hand (players playingRoom ! 1))
                   \<and> hand (players playingRoom ! 1) ! k = \<lparr>suit = ''hearts'', rank = ''2'', setType = ''lower''\<rparr>
                   \<and> players room2 = (players playingRoom)
                        [1 := (players playingRoom ! 1)\<lparr>hand := take k (hand (players playingRoom ! 1)) @
                                                          drop (Suc k) (hand (players playingRoom ! 1))\<rparr>,
                         0 := (players playingRoom ! 0)\<lparr>hand := hand (players playingRoom ! 0) @
                                                          [\<lparr>suit = ''hearts'', rank = ''2'', setType = ''lower''\<rparr>]\<rparr>])"
    by (elim exE conjE)
  from e2' have e2: "requestCard ''h'' ''r'' ''p'' ''hearts'' ''2'' ''lower'' [''r'' \<mapsto> playingRoom]
                  = (GameUpdate room2, [''r'' \<mapsto> room2])" by simp
  from i2 m2 obtain k where
    k: "findIndex (isCard ''hearts'' ''2'' ''lower'') (hand (players playingRoom ! 1)) = Some k"
    and p2: "players room2 = (players playingRoom)
                        [1 := (players playingRoom ! 1)\<lparr>hand := take k (hand (players playingRoom ! 1)) @
                                                          drop (Suc k) (hand (players playingRoom ! 1))\<rparr>,
                         0 := (players playingRoom ! 0)\<lparr>hand := hand (players playingRoom ! 0) @
                                                          [\<lparr>suit = ''hearts'', rank = ''2'', setType = ''lower''\<rparr>]\<rparr>]"
    by (elim impE exE conjE)
  from k f2 have k0: "k = 0" by simp
  have h2: "map hand (players room2) =
               [[\<lparr>suit = ''hearts'', rank = ''ace'', setType = ''lower''\<rparr>,
                 \<lparr>suit = ''hearts'', rank = ''2'', setType = ''lower''\<rparr>], []]"
    unfolding p2 k0 by (simp add: playingRoom_def)
  note miss = requestCard_turn_passes[where sid="''h''" and rn="''r''" and tid="''p''"
      and s="''hearts''" and r="''3''" and st="''lower''" and rooms="[''r'' \<mapsto> playingRoom]",
      THEN conjunct2, rule_format, of playingRoom 0 1]
  have "\<exists>room'. requestCard ''h'' ''r'' ''p'' ''hearts'' ''3'' ''lower'' [''r'' \<mapsto> playingRoom]
                  = (GameUpdate room', [''r'' \<mapsto> playingRoom, ''r'' \<mapsto> room'])
          \<and> currentTurnPlayerId room' = Some ''p''
          \<and> (\<lparr>suit = ''hearts'', rank = ''3'', setType = ''lower''\<rparr> \<in> set (hand (players playingRoom ! 1)) \<longrightarrow>
                (\<exists>k. findIndex (isCard ''hearts'' ''3'' ''lower'') (hand (players playingRoom ! 1)) = Some k
                   \<and> k < length (hand (players playingRoom ! 1))
                   \<and> hand (players playingRoom ! 1) ! k = \<lparr>suit = ''hearts'', rank = ''3'', setType = ''lower''\<rparr>
                   \<and> players room' = (players playingRoom)
                        [1 := (players playingRoom ! 1)\<lparr>hand := take k (hand (players playingRoom ! 1)) @
                                                          drop (Suc k) (hand (players playingRoom ! 1))\<rparr>,
                         0 := (players playingRoom ! 0)\<lparr>hand := hand (players playingRoom ! 0) @
                                                          [\<lparr>suit = ''hearts'', rank = ''3'', setType = ''lower''\<rparr>]\<rparr>]))
          \<and> (\<lparr>suit = ''hearts'', rank = ''3'', setType = ''lower''\<rparr> \<notin> set (hand (players playingRoom ! 1)) \<longrightarrow>
                players room' = players playingRoom)"
    by (rule miss) (intro conjI r i0 i1 t v3)
  then obtain room3 where
    e3': "requestCard ''h'' ''r'' ''p'' ''hearts'' ''3'' ''lower'' [''r'' \<mapsto> playingRoom]
                  = (GameUpdate room3, [''r'' \<mapsto> playingRoom, ''r'' \<mapsto> room3])"
    and c3: "currentTurnPlayerId room3 = Some ''p''"
    and i3: "\<lparr>suit = ''hearts'', rank = ''3'', setType = ''lower''\<rparr> \<notin> set (hand (players playingRoom ! 1)) \<longrightarrow>
                players room3 = players playingRoom"
    by (elim exE conjE)
  from e3' have e3: "requestCard ''h'' ''r'' ''p'' ''hearts'' ''3'' ''lower'' [''r'' \<mapsto> playingRoom]
                  = (GameUpdate room3, [''r'' \<mapsto> room3])" by simp
  from i3 m3 have p3: "players room3 = players playingRoom" by (rule mp)
  have hitc: "\<exists>room'. requestCard ''h'' ''r'' ''p'' ''hearts'' ''2'' ''lower'' [''r'' \<mapsto> playingRoom]
                  = (GameUpdate room', [''r'' \<mapsto> room'])
          \<and> currentTurnPlayerId room' = Some ''p''
          \<and> map hand (players room') =
               [[\<lparr>suit = ''hearts'', rank = ''ace'', setType = ''lower''\<rparr>,
                 \<lparr>suit = ''hearts'', rank = ''2'', setType = ''lower''\<rparr>], []]"
    by (intro exI[of _ room2] conjI e2 c2 h2)
  have missc: "\<exists>room'. requestCard ''h'' ''r'' ''p'' ''hearts'' ''3'' ''lower'' [''r'' \<mapsto> playingRoom]
                  = (GameUpdate room', [''r'' \<mapsto> room'])
          \<and> currentTurnPlayerId room' = Some ''p''
          \<and> players room' = players playingRoom"
    by (intro exI[of _ room3] conjI e3 c3 p3)
  show ?thesis by (intro conjI r i0 i1 t v2 m2 hitc v3 m3 missc)
qed

text \<open>
  Claim C10. A \<^verbatim>\<open>requestCard\<close> that is not answered with an error stores the room that it
  emits, and in it changes nothing but the hands of the requester and of the target,
  \<^verbatim>\<open>currentTurnPlayerId\<close> and \<^verbatim>\<open>lastAction\<close>: the players array keeps its length and order,
  every player keeps every property other than the hand, every other player is unchanged,
  and the captured sets, both status properties, the winner and all other rooms are
  unchanged.
\<close>

theorem requestCard_frame:
  assumes "rooms rn = Some room"
    and "fst (requestCard sid rn tid s r st rooms) = GameUpdate room'"
  shows "\<exists>ri ti. findIndex (\<lambda>p. pid p = sid) (players room) = Some ri
     \<and> findIndex (\<lambda>p. pid p = tid) (players room) = Some ti
     \<and> snd (requestCard sid rn tid s r st rooms) = rooms(rn \<mapsto> room')
     \<and> length (players room') = length (players room)
     \<and> (\<forall>j<length (players room). j \<noteq> ri \<and> j \<noteq> ti \<longrightarrow> players room' ! j = players room ! j)
     \<and> (\<forall>j<length (players room). (players room' ! j)\<lparr>hand := []\<rparr> = (players room ! j)\<lparr>hand := []\<rparr>)
     \<and> capturedSets room' = capturedSets room
     \<and> status room' = status room
     \<and> gameStatus room' = gameStatus room
     \<and> winner room' = winner room
     \<and> room' = room\<lparr>players := players room', lastAction := lastAction room',
                     currentTurnPlayerId := currentTurnPlayerId room'\<rparr>
     \<and> (\<forall>rn'. rn' \<noteq> rn \<longrightarrow> snd (requestCard sid rn tid s r st rooms) rn' = rooms rn')"
proof -
  from requestCard_success[OF assms(2)] assms(1) obtain ri ti where
    ri: "findIndex (\<lambda>p. pid p = sid) (players room) = Some ri"
    and ti: "findIndex (\<lambda>p. pid p = tid) (players room) = Some ti"
    and lt: "ri < length (players room)" "ti < length (players room)" "ri \<noteq> ti"
    and rooms': "snd (requestCard sid rn tid s r st rooms) = rooms(rn \<mapsto> room')"
    and eff: "if list_ex (isCard s r st) (hand (players room ! ti))
        then \<exists>k. findIndex (isCard s r st) (hand (players room ! ti)) = Some k
              \<and> k < length (hand (players room ! ti))
              \<and> hand (players room ! ti) ! k = \<lparr>suit = s, rank = r, setType = st\<rparr>
              \<and> room' = room\<lparr>players := (players room)
                    [ti := (players room ! ti)\<lparr>hand := take k (hand (players room ! ti)) @
                                                      drop (Suc k) (hand (players room ! ti))\<rparr>,
                     ri := (players room ! ri)\<lparr>hand := hand (players room ! ri) @
                                                      [\<lparr>suit = s, rank = r, setType = st\<rparr>]\<rparr>],
                  lastAction := Some (gotMessage (players room ! ri) (players room ! ti) r s),
                  currentTurnPlayerId := Some tid\<rparr>
        else room' = room\<lparr>lastAction := Some (askedMessage (players room ! ri) (players room ! ti) r s),
                          currentTurnPlayerId := Some tid\<rparr>"
    by auto
  have len: "length (players room') = length (players room)"
    using eff by (auto split: if_splits)
  have others: "\<forall>j<length (players room). j \<noteq> ri \<and> j \<noteq> ti \<longrightarrow> players room' ! j = players room ! j"
    using eff by (auto split: if_splits)
  have attrs: "\<forall>j<length (players room). (players room' ! j)\<lparr>hand := []\<rparr> = (players room ! j)\<lparr>hand := []\<rparr>"
    using eff lt by (auto split: if_splits simp: nth_list_update)
  have rest: "capturedSets room' = capturedSets room \<and> status room' = status room
     \<and> gameStatus room' = gameStatus room \<and> winner room' = winner room
     \<and> room' = room\<lparr>players := players room', lastAction := lastAction room',
                     currentTurnPlayerId := currentTurnPlayerId room'\<rparr>"
    using eff by (auto split: if_splits)
  have other_rooms: "\<forall>rn'. rn' \<noteq> rn \<longrightarrow> snd (requestCard sid rn tid s r st rooms) rn' = rooms rn'"
    using rooms' by simp
  show ?thesis using ri ti len others attrs rest rooms' other_rooms by auto
qed

theorem requestCard_frame_witness:
  "[''r'' \<mapsto> playingRoom] ''r'' = Some playingRoom
   \<and> fst (requestCard ''h'' ''r'' ''p'' ''hearts'' ''2'' ''lower'' [''r'' \<mapsto> playingRoom])
       = GameUpdate afterRequest
   \<and> snd (requestCard ''h'' ''r'' ''p'' ''hearts'' ''2'' ''lower'' [''r'' \<mapsto> playingRoom])
       = [''r'' \<mapsto> afterRequest]
   \<and> capturedSets afterRequest = capturedSets playingRoom
   \<and> gameStatus afterRequest = gameStatus playingRoom
   \<and> winner afterRequest = winner playingRoom"
proof -
  have r: "[''r'' \<mapsto> playingRoom] ''r'' = Some playingRoom" by simp
  have h: "fst (requestCard ''h'' ''r'' ''p'' ''hearts'' ''2'' ''lower'' [''r'' \<mapsto> playingRoom])
     = GameUpdate afterRequest"
    by (simp add: request_example)
  from requestCard_frame[where rooms="[''r'' \<mapsto> playingRoom]" and rn="''r''" and room=playingRoom
      and sid="''h''" and tid="''p''" and s="''hearts''" and r="''2''" and st="''lower''"
      and room'=afterRequest, OF r h]
  have "snd (requestCard ''h'' ''r'' ''p'' ''hearts'' ''2'' ''lower'' [''r'' \<mapsto> playingRoom])
       = [''r'' \<mapsto> afterRequest]
   \<and> capturedSets afterRequest = capturedSets playingRoom
   \<and> gameStatus afterRequest = gameStatus playingRoom
   \<and> winner afterRequest = winner playingRoom" by auto
  with r h show ?thesis by blast
qed

section \<open>Conservation of the cards\<close>

lemma requestCard_event:
  "(\<exists>e. fst (requestCard sid rn tid s r st rooms) = Err e)
   \<or> (\<exists>room'. fst (requestCard sid rn tid s r st rooms) = GameUpdate room')"
  by (auto simp: requestCard_def Let_def split: option.splits if_splits prod.splits)

lemma requestCard_keeps_cards:
  assumes "rooms rn' = Some room"
  shows "\<exists>room'. snd (requestCard sid rn tid s r st rooms) rn' = Some room'
     \<and> mset (allCards room') = mset (allCards room)"
proof -
  from requestCard_event[of sid rn tid s r st rooms]
  consider e where "fst (requestCard sid rn tid s r st rooms) = Err e"
    | room'' where "fst (requestCard sid rn tid s r st rooms) = GameUpdate room''"
    by blast
  then show ?thesis
  proof cases
    case 1
    from requestCard_rejected[OF 1] assms show ?thesis by simp
  next
    case 2
    from requestCard_success[OF 2] obtain room0 ri ti where
      room0: "rooms rn = Some room0"
      and lt: "ri < length (players room0)" "ti < length (players room0)" "ri \<noteq> ti"
      and rooms': "snd (requestCard sid rn tid s r st rooms) = rooms(rn \<mapsto> room'')"
      and eff: "if list_ex (isCard s r st) (hand (players room0 ! ti))
        then \<exists>k. findIndex (isCard s r st) (hand (players room0 ! ti)) = Some k
              \<and> k < length (hand (players room0 ! ti))
              \<and> hand (players room0 ! ti) ! k = \<lparr>suit = s, rank = r, setType = st\<rparr>
              \<and> room'' = room0\<lparr>players := (players room0)
                    [ti := (players room0 ! ti)\<lparr>hand := take k (hand (players room0 ! ti)) @
                                                      drop (Suc k) (hand (players room0 ! ti))\<rparr>,
                     ri := (players room0 ! ri)\<lparr>hand := hand (players room0 ! ri) @
                                                      [\<lparr>suit = s, rank = r, setType = st\<rparr>]\<rparr>],
                  lastAction := Some (gotMessage (players room0 ! ri) (players room0 ! ti) r s),
                  currentTurnPlayerId := Some tid\<rparr>
        else room'' = room0\<lparr>lastAction := Some (askedMessage (players room0 ! ri) (players room0 ! ti) r s),
                          currentTurnPlayerId := Some tid\<rparr>"
      by blast
    have keep: "mset (allCards room'') = mset (allCards room0)"
    proof (cases "list_ex (isCard s r st) (hand (players room0 ! ti))")
      case True
      with eff obtain k where k: "k < length (hand (players room0 ! ti))"
        "hand (players room0 ! ti) ! k = \<lparr>suit = s, rank = r, setType = st\<rparr>"
        "players room'' = (players room0)
                    [ti := (players room0 ! ti)\<lparr>hand := take k (hand (players room0 ! ti)) @
                                                      drop (Suc k) (hand (players room0 ! ti))\<rparr>,
                     ri := (players room0 ! ri)\<lparr>hand := hand (players room0 ! ri) @
                                                      [\<lparr>suit = s, rank = r, setType = st\<rparr>]\<rparr>]"
        by auto
      from mset_hands_move[OF lt(2) lt(1) lt(3) k(1)] k(2,3)
      show ?thesis by (simp add: allCards_def)
    next
      case False
      with eff show ?thesis by (simp add: allCards_def)
    qed
    show ?thesis
    proof (cases "rn' = rn")
      case True
      with assms room0 rooms' keep show ?thesis by simp
    next
      case False
      with assms rooms' show ?thesis by simp
    qed
  qed
qed

lemma run_requests_keep_cards:
  "list_all (\<lambda>m. isRequestCard (snd m)) msgs \<Longrightarrow> rooms rn = Some room \<Longrightarrow>
   \<exists>room'. run rnds msgs rooms rn = Some room' \<and> mset (allCards room') = mset (allCards room)"
proof (induction msgs arbitrary: rnds rooms room)
  case Nil then show ?case by simp
next
  case (Cons m msgs)
  obtain sid a where m: "m = (sid, a)" by (cases m)
  with Cons.prems(1) obtain rn0 tid s r st where a: "a = RequestCard rn0 tid s r st"
    by (cases a) simp_all
  from requestCard_keeps_cards[where rooms=rooms and rn'=rn and room=room and sid=sid and rn=rn0
      and tid=tid and s=s and r=r and st=st, OF Cons.prems(2)] obtain room1 where
    r1: "snd (requestCard sid rn0 tid s r st rooms) rn = Some room1"
    and c1: "mset (allCards room1) = mset (allCards room)" by blast
  from Cons.prems(1) have "list_all (\<lambda>m. isRequestCard (snd m)) msgs" by simp
  from Cons.IH[where rooms="snd (requestCard sid rn0 tid s r st rooms)" and room=room1
      and rnds="\<lambda>k. rnds (Suc k)", OF this r1] c1 show ?case
    by (simp add: m a)
qed

lemma distinct_concat_one_list:
  "distinct (concat xss) \<Longrightarrow> i < length xss \<Longrightarrow> j < length xss \<Longrightarrow>
   c \<in> set (xss ! i) \<Longrightarrow> c \<in> set (xss ! j) \<Longrightarrow> i = j"
proof (induction xss arbitrary: i j)
  case Nil then show ?case by simp
next
  case (Cons x xss)
  have later: "\<And>k. k < length xss \<Longrightarrow> c \<in> set (xss ! k) \<Longrightarrow> c \<notin> set x"
  proof -
    fix k assume k: "k < length xss" "c \<in> set (xss ! k)"
    from k(1) have "xss ! k \<in> set xss" by (rule nth_mem)
    with k(2) have "c \<in> set (concat xss)" by auto
    with Cons.prems(1) show "c \<notin> set x" by auto
  qed
  show ?case
  proof (cases i)
    case i0: 0
    show ?thesis
    proof (cases j)
      case 0 with i0 show ?thesis by simp
    next
      case (Suc j')
      with i0 Cons.prems later[of j'] show ?thesis by simp
    qed
  next
    case iS: (Suc i')
    show ?thesis
    proof (cases j)
      case 0
      with iS Cons.prems later[of i'] show ?thesis by simp
    next
      case (Suc j')
      with iS Cons.prems Cons.IH[of i' j'] show ?thesis by simp
    qed
  qed
qed

lemma in_concat_nth: "c \<in> set (concat xss) \<Longrightarrow> \<exists>i<length xss. c \<in> set (xss ! i)"
  by (auto simp: in_set_conv_nth[of _ xss])

lemma run_after_dealing:
  assumes "fst (startGame rnd sid rn rooms) = GameStarted room1"
    and "length (players room1) = 8"
    and "unitInterval rnd"
    and "list_all (\<lambda>m. isRequestCard (snd m)) msgs"
  shows "\<exists>room. run rnds msgs (snd (startGame rnd sid rn rooms)) rn = Some room
     \<and> mset (allCards room) = mset orderedDeck
     \<and> length (allCards room) = 48
     \<and> distinct (allCards room)
     \<and> (\<forall>c\<in>set orderedDeck. \<exists>!i. i < length (players room) \<and> c \<in> set (hand (players room ! i)))"
proof -
  from startGame_success[OF assms(1)] obtain room0 :: room where
    r1: "players room1 = dealCards (createAndShuffleDeck rnd) (players room0)"
    and s1: "snd (startGame rnd sid rn rooms) = rooms(rn \<mapsto> room1)"
    by blast
  have m: "mset (createAndShuffleDeck rnd) = mset orderedDeck"
    using assms(3) by (rule mset_createAndShuffleDeck)
  have l: "length (createAndShuffleDeck rnd) = 48"
    using mset_eq_length[OF m] by (simp add: length_orderedDeck)
  have "length (players room0) = 8" using assms(2) r1 by (simp add: length_dealCards)
  then have "allCards room1 = createAndShuffleDeck rnd"
    using l by (simp add: allCards_def r1 hands_dealCards)
  with m have dealt: "mset (allCards room1) = mset orderedDeck" by simp
  have "snd (startGame rnd sid rn rooms) rn = Some room1" by (simp add: s1)
  from run_requests_keep_cards[where rooms="snd (startGame rnd sid rn rooms)" and rn=rn
      and room=room1 and rnds=rnds, OF assms(4) this]
  obtain room where room: "run rnds msgs (snd (startGame rnd sid rn rooms)) rn = Some room"
    and keep: "mset (allCards room) = mset (allCards room1)" by blast
  have ms: "mset (allCards room) = mset orderedDeck" using keep dealt by simp
  have len: "length (allCards room) = 48"
    using mset_eq_length[OF ms] by (simp add: length_orderedDeck)
  have dis: "distinct (allCards room)"
    using mset_eq_imp_distinct_iff[OF ms] distinct_orderedDeck by simp
  have one: "\<forall>c\<in>set orderedDeck. \<exists>!i. i < length (players room) \<and> c \<in> set (hand (players room ! i))"
  proof
    fix c assume "c \<in> set orderedDeck"
    then have "c \<in> set (concat (map hand (players room)))"
      using mset_eq_setD[OF ms] by (simp add: allCards_def)
    from in_concat_nth[OF this] obtain i where
      i: "i < length (players room)" "c \<in> set (hand (players room ! i))" by auto
    show "\<exists>!i. i < length (players room) \<and> c \<in> set (hand (players room ! i))"
    proof (rule ex1I[of _ i])
      show "i < length (players room) \<and> c \<in> set (hand (players room ! i))" using i by simp
    next
      fix j assume j: "j < length (players room) \<and> c \<in> set (hand (players room ! j))"
      from distinct_concat_one_list[of "map hand (players room)" j i c] dis i j
      show "j = i" by (simp add: allCards_def)
    qed
  qed
  show ?thesis using room ms len dis one by blast
qed

lemma requestCard_moves_one_card:
  assumes "rooms rn = Some room"
    and "findIndex (\<lambda>p. pid p = sid) (players room) = Some ri"
    and "findIndex (\<lambda>p. pid p = tid) (players room) = Some ti"
    and "currentTurnPlayerId room = Some sid"
    and "isValidRequest (players room ! ri) (players room ! ti) \<lparr>suit = s, rank = r, setType = st\<rparr>"
    and "\<lparr>suit = s, rank = r, setType = st\<rparr> \<in> set (hand (players room ! ti))"
  shows "\<exists>room' k. snd (requestCard sid rn tid s r st rooms) rn = Some room'
     \<and> k < length (hand (players room ! ti))
     \<and> hand (players room ! ti) ! k = \<lparr>suit = s, rank = r, setType = st\<rparr>
     \<and> hand (players room' ! ti) =
          take k (hand (players room ! ti)) @ drop (Suc k) (hand (players room ! ti))
     \<and> length (hand (players room' ! ti)) + 1 = length (hand (players room ! ti))
     \<and> hand (players room' ! ri) = hand (players room ! ri) @ [\<lparr>suit = s, rank = r, setType = st\<rparr>]
     \<and> (\<forall>j<length (players room). j \<noteq> ri \<and> j \<noteq> ti \<longrightarrow>
            hand (players room' ! j) = hand (players room ! j))
     \<and> length (players room') = length (players room)
     \<and> mset (allCards room') = mset (allCards room)"
proof -
  have lt: "ri < length (players room)" "ti < length (players room)"
    using findIndex_Some[OF assms(2)] findIndex_Some[OF assms(3)] by simp_all
  have ne: "ri \<noteq> ti" using assms(5) by (auto simp: isValidRequest_iff)
  from requestCard_valid[where rooms=rooms and rn=rn and room=room and sid=sid and ri=ri
      and tid=tid and ti=ti and s=s and r=r and st=st, OF assms(1-5)] assms(6)
  obtain room' k where
    res: "requestCard sid rn tid s r st rooms = (GameUpdate room', rooms(rn \<mapsto> room'))"
    and k: "k < length (hand (players room ! ti))"
           "hand (players room ! ti) ! k = \<lparr>suit = s, rank = r, setType = st\<rparr>"
    and ps: "players room' = (players room)
                  [ti := (players room ! ti)\<lparr>hand := take k (hand (players room ! ti)) @
                                                    drop (Suc k) (hand (players room ! ti))\<rparr>,
                   ri := (players room ! ri)\<lparr>hand := hand (players room ! ri) @
                                                    [\<lparr>suit = s, rank = r, setType = st\<rparr>]\<rparr>]"
    by blast
  have a: "snd (requestCard sid rn tid s r st rooms) rn = Some room'" by (simp add: res)
  have b: "hand (players room' ! ti) =
          take k (hand (players room ! ti)) @ drop (Suc k) (hand (players room ! ti))"
    using lt ne by (simp add: ps)
  have c: "length (hand (players room' ! ti)) + 1 = length (hand (players room ! ti))"
    using k(1) unfolding b by simp
  have d: "hand (players room' ! ri) = hand (players room ! ri) @ [\<lparr>suit = s, rank = r, setType = st\<rparr>]"
    using lt by (simp add: ps)
  have e: "\<forall>j<length (players room). j \<noteq> ri \<and> j \<noteq> ti \<longrightarrow>
            hand (players room' ! j) = hand (players room ! j)"
    by (simp add: ps)
  have f: "length (players room') = length (players room)" by (simp add: ps)
  have g: "mset (allCards room') = mset (allCards room)"
    using mset_hands_move[OF lt(2) lt(1) ne k(1)] k(2) by (simp add: allCards_def ps)
  show ?thesis using a k b c d e f g by blast
qed

text \<open>
  With the draws \<open>oneSwap\<close> the shuffle exchanges the first and the last card of the deck,
  so the hands that \<^verbatim>\<open>startGame\<close> deals and the two requests of \<open>twoRequests\<close>, both of
  which are accepted and move a card, can be computed.
\<close>

lemma unitInterval_oneSwap: "unitInterval oneSwap"
  by (simp add: unitInterval_def oneSwap_def)

lemma swap_same: "swap i i xs = xs"
  by (simp add: swap_def)

lemma shuffleLoop_fixed:
  "(\<And>i. 0 < i \<Longrightarrow> i \<le> n \<Longrightarrow> nat \<lfloor>rnd i * of_nat (i + 1)\<rfloor> = i) \<Longrightarrow> shuffleLoop rnd n xs = xs"
proof (induction n arbitrary: xs)
  case 0 then show ?case by simp
next
  case (Suc n)
  have "nat \<lfloor>rnd (Suc n) * of_nat (Suc n + 1)\<rfloor> = Suc n" using Suc.prems[of "Suc n"] by simp
  moreover have "shuffleLoop rnd n xs = xs" using Suc.prems by (intro Suc.IH) simp_all
  ultimately show ?case by (simp add: swap_same)
qed

lemma oneSwap_index: "i \<noteq> 47 \<Longrightarrow> nat \<lfloor>oneSwap i * of_nat (i + 1)\<rfloor> = i"
  by (simp add: oneSwap_def)

lemma createAndShuffleDeck_oneSwap: "createAndShuffleDeck oneSwap = swap 47 0 orderedDeck"
proof -
  have n: "length orderedDeck - 1 = Suc 46" by (simp add: length_orderedDeck)
  have j: "nat \<lfloor>oneSwap (Suc 46) * of_nat (Suc 46 + 1)\<rfloor> = 0" by (simp add: oneSwap_def)
  have "shuffleLoop oneSwap 46 (swap (Suc 46) 0 orderedDeck) = swap (Suc 46) 0 orderedDeck"
    by (rule shuffleLoop_fixed) (rule oneSwap_index, simp)
  then show ?thesis
    unfolding createAndShuffleDeck_def n shuffleLoop.simps j by simp
qed

lemma swapped_deck:
  "swap 47 0 orderedDeck =
     (\<lparr>suit = ''spades'', rank = ''king'', setType = ''upper''\<rparr> #
        setCards ''lower'' [''2'', ''3'', ''4'', ''5'', ''6''] ''hearts'') @
     setCards ''lower'' lowerRanks ''diamonds'' @
     setCards ''lower'' lowerRanks ''clubs'' @
     setCards ''lower'' lowerRanks ''spades'' @
     setCards ''upper'' upperRanks ''hearts'' @
     setCards ''upper'' upperRanks ''diamonds'' @
     setCards ''upper'' upperRanks ''clubs'' @
     setCards ''upper'' [''8'', ''9'', ''10'', ''jack'', ''queen''] ''spades'' @
       [\<lparr>suit = ''hearts'', rank = ''ace'', setType = ''lower''\<rparr>]"
  by (simp add: swap_def orderedDeck_def setCards_def suits_def lowerRanks_def upperRanks_def)

lemma startGame_readyRoom:
  "startGame oneSwap ''h'' ''r1'' [''r1'' \<mapsto> readyRoom] = (GameStarted dealtHands, [''r1'' \<mapsto> dealtHands])"
  by (simp add: startGame_def readyRoom_def fullRoom_def dealtHands_def Let_def
      createAndShuffleDeck_oneSwap swapped_deck setCards_def lowerRanks_def upperRanks_def)

lemma twoRequests_run:
  "map_option (map hand \<circ> players) (run rnds twoRequests [''r1'' \<mapsto> dealtHands] ''r1'') =
     Some [setCards ''lower'' [''2'', ''3'', ''4'', ''5'', ''6'', ''ace''] ''hearts'',
           setCards ''lower'' lowerRanks ''diamonds'',
           setCards ''lower'' lowerRanks ''clubs'',
           setCards ''lower'' lowerRanks ''spades'',
           setCards ''upper'' upperRanks ''hearts'',
           setCards ''upper'' upperRanks ''diamonds'',
           setCards ''upper'' upperRanks ''clubs'',
           setCards ''upper'' [''8'', ''9'', ''10'', ''jack'', ''queen'', ''king''] ''spades'']"
  by (simp add: twoRequests_def requestCard_def dealtHands_def readyRoom_def fullRoom_def
      isValidRequest_def isCard_def transferCard_def setCards_def lowerRanks_def upperRanks_def Let_def)

text \<open>
  Claim C6. After \<^verbatim>\<open>startGame\<close> has dealt to eight players, any sequence of
  \<^verbatim>\<open>requestCard\<close> messages, accepted or not, leaves the hands of the room holding the 48
  cards of the deck: as a multiset the cards of all hands are the deck, they are 48, no
  card occurs twice, and every card of the deck is in the hand of exactly one player.
  A valid request for a card that the target holds takes exactly that card out of the
  target's hand, which gets one card shorter, and appends it to the requester's hand; no
  other hand changes and the cards of the room are the same multiset as before.
\<close>

theorem requestCard_conserves_cards:
  "(fst (startGame rnd sid0 rn0 rooms0) = GameStarted room1
      \<and> length (players room1) = 8
      \<and> unitInterval rnd
      \<and> list_all (\<lambda>m. isRequestCard (snd m)) msgs
    \<longrightarrow>
      (\<exists>room. run rnds msgs (snd (startGame rnd sid0 rn0 rooms0)) rn0 = Some room
         \<and> mset (allCards room) = mset orderedDeck
         \<and> length (allCards room) = 48
         \<and> distinct (allCards room)
         \<and> (\<forall>c\<in>set orderedDeck. \<exists>!i. i < length (players room) \<and> c \<in> set (hand (players room ! i)))))
   \<and> (rooms rn = Some room
      \<and> findIndex (\<lambda>p. pid p = sid) (players room) = Some ri
      \<and> findIndex (\<lambda>p. pid p = tid) (players room) = Some ti
      \<and> currentTurnPlayerId room = Some sid
      \<and> isValidRequest (players room ! ri) (players room ! ti) \<lparr>suit = s, rank = r, setType = st\<rparr>
      \<and> \<lparr>suit = s, rank = r, setType = st\<rparr> \<in> set (hand (players room ! ti))
    \<longrightarrow>
      (\<exists>room' k. snd (requestCard sid rn tid s r st rooms) rn = Some room'
         \<and> k < length (hand (players room ! ti))
         \<and> hand (players room ! ti) ! k = \<lparr>suit = s, rank = r, setType = st\<rparr>
         \<and> hand (players room' ! ti) =
              take k (hand (players room ! ti)) @ drop (Suc k) (hand (players room ! ti))
         \<and> length (hand (players room' ! ti)) + 1 = length (hand (players room ! ti))
         \<and> hand (players room' ! ri) = hand (players room ! ri) @ [\<lparr>suit = s, rank = r, setType = st\<rparr>]
         \<and> (\<forall>j<length (players room). j \<noteq> ri \<and> j \<noteq> ti \<longrightarrow>
                hand (players room' ! j) = hand (players room ! j))
         \<and> length (players room') = length (players room)
         \<and> mset (allCards room') = mset (allCards room)))"
proof (intro conjI impI)
  assume a: "fst (startGame rnd sid0 rn0 rooms0) = GameStarted room1
      \<and> length (players room1) = 8
      \<and> unitInterval rnd
      \<and> list_all (\<lambda>m. isRequestCard (snd m)) msgs"
  show "\<exists>room. run rnds msgs (snd (startGame rnd sid0 rn0 rooms0)) rn0 = Some room
         \<and> mset (allCards room) = mset orderedDeck
         \<and> length (allCards room) = 48
         \<and> distinct (allCards room)
         \<and> (\<forall>c\<in>set orderedDeck. \<exists>!i. i < length (players room) \<and> c \<in> set (hand (players room ! i)))"
    by (rule run_after_dealing[of rnd sid0 rn0 rooms0 room1 msgs rnds]) (simp_all add: a)
next
  assume b: "rooms rn = Some room
      \<and> findIndex (\<lambda>p. pid p = sid) (players room) = Some ri
      \<and> findIndex (\<lambda>p. pid p = tid) (players room) = Some ti
      \<and> currentTurnPlayerId room = Some sid
      \<and> isValidRequest (players room ! ri) (players room ! ti) \<lparr>suit = s, rank = r, setType = st\<rparr>
      \<and> \<lparr>suit = s, rank = r, setType = st\<rparr> \<in> set (hand (players room ! ti))"
  show "\<exists>room' k. snd (requestCard sid rn tid s r st rooms) rn = Some room'
         \<and> k < length (hand (players room ! ti))
         \<and> hand (players room ! ti) ! k = \<lparr>suit = s, rank = r, setType = st\<rparr>
         \<and> hand (players room' ! ti) =
              take k (hand (players room ! ti)) @ drop (Suc k) (hand (players room ! ti))
         \<and> length (hand (players room' ! ti)) + 1 = length (hand (players room ! ti))
         \<and> hand (players room' ! ri) = hand (players room ! ri) @ [\<lparr>suit = s, rank = r, setType = st\<rparr>]
         \<and> (\<forall>j<length (players room). j \<noteq> ri \<and> j \<noteq> ti \<longrightarrow>
                hand (players room' ! j) = hand (players room ! j))
         \<and> length (players room') = length (players room)
         \<and> mset (allCards room') = mset (allCards room)"
    by (rule requestCard_moves_one_card[where rooms=rooms and rn=rn and room=room and sid=sid
          and ri=ri and tid=tid and ti=ti and s=s and r=r and st=st])
       (simp_all add: b)
qed

theorem requestCard_conserves_cards_witness:
  "fst (startGame oneSwap ''h'' ''r1'' [''r1'' \<mapsto> readyRoom]) = GameStarted dealtHands
   \<and> length (players dealtHands) = 8
   \<and> unitInterval oneSwap
   \<and> list_all (\<lambda>m. isRequestCard (snd m)) twoRequests
   \<and> (\<exists>room. run (\<lambda>k i. 0) twoRequests
                 (snd (startGame oneSwap ''h'' ''r1'' [''r1'' \<mapsto> readyRoom])) ''r1'' = Some room
          \<and> length (allCards room) = 48
          \<and> map hand (players room) =
               [setCards ''lower'' [''2'', ''3'', ''4'', ''5'', ''6'', ''ace''] ''hearts'',
                setCards ''lower'' lowerRanks ''diamonds'',
                setCards ''lower'' lowerRanks ''clubs'',
                setCards ''lower'' lowerRanks ''spades'',
                setCards ''upper'' upperRanks ''hearts'',
                setCards ''upper'' upperRanks ''diamonds'',
                setCards ''upper'' upperRanks ''clubs'',
                setCards ''upper'' [''8'', ''9'', ''10'', ''jack'', ''queen'', ''king''] ''spades''])
   \<and> [''r1'' \<mapsto> dealtHands] ''r1'' = Some dealtHands
   \<and> findIndex (\<lambda>p. pid p = ''h'') (players dealtHands) = Some 0
   \<and> findIndex (\<lambda>p. pid p = ''p7'') (players dealtHands) = Some 7
   \<and> currentTurnPlayerId dealtHands = Some ''h''
   \<and> isValidRequest (players dealtHands ! 0) (players dealtHands ! 7)
         \<lparr>suit = ''hearts'', rank = ''ace'', setType = ''lower''\<rparr>
   \<and> \<lparr>suit = ''hearts'', rank = ''ace'', setType = ''lower''\<rparr> \<in> set (hand (players dealtHands ! 7))
   \<and> (\<exists>room'. snd (requestCard ''h'' ''r1'' ''p7'' ''hearts'' ''ace'' ''lower'' [''r1'' \<mapsto> dealtHands]) ''r1''
                    = Some room'
          \<and> hand (players room' ! 0) =
               hand (players dealtHands ! 0) @ [\<lparr>suit = ''hearts'', rank = ''ace'', setType = ''lower''\<rparr>]
          \<and> length (hand (players room' ! 7)) + 1 = length (hand (players dealtHands ! 7)))"
proof -
  have h1: "fst (startGame oneSwap ''h'' ''r1'' [''r1'' \<mapsto> readyRoom]) = GameStarted dealtHands"
    by (simp add: startGame_readyRoom)
  have s1: "snd (startGame oneSwap ''h'' ''r1'' [''r1'' \<mapsto> readyRoom]) = [''r1'' \<mapsto> dealtHands]"
    by (simp add: startGame_readyRoom)
  have h2: "length (players dealtHands) = 8" by (simp add: dealtHands_def)
  have h3: "unitInterval oneSwap" by (rule unitInterval_oneSwap)
  have h4: "list_all (\<lambda>m. isRequestCard (snd m)) twoRequests" by (simp add: twoRequests_def)
  note seq = requestCard_conserves_cards[where rnd=oneSwap and ?sid0.0="''h''" and ?rn0.0="''r1''"
      and ?rooms0.0="[''r1'' \<mapsto> readyRoom]" and ?room1.0=dealtHands and msgs=twoRequests
      and rnds="\<lambda>k i. 0", THEN conjunct1, rule_format]
  have "\<exists>room. run (\<lambda>k i. 0) twoRequests
                 (snd (startGame oneSwap ''h'' ''r1'' [''r1'' \<mapsto> readyRoom])) ''r1'' = Some room
         \<and> mset (allCards room) = mset orderedDeck
         \<and> length (allCards room) = 48
         \<and> distinct (allCards room)
         \<and> (\<forall>c\<in>set orderedDeck. \<exists>!i. i < length (players room) \<and> c \<in> set (hand (players room ! i)))"
    by (rule seq) (intro conjI h1 h2 h3 h4)
  then obtain room :: room where
    run: "run (\<lambda>k i. 0) twoRequests
                 (snd (startGame oneSwap ''h'' ''r1'' [''r1'' \<mapsto> readyRoom])) ''r1'' = Some room"
    and len: "length (allCards room) = 48"
    by (elim exE conjE)
  have hands: "map hand (players room) =
               [setCards ''lower'' [''2'', ''3'', ''4'', ''5'', ''6'', ''ace''] ''hearts'',
                setCards ''lower'' lowerRanks ''diamonds'',
                setCards ''lower'' lowerRanks ''clubs'',
                setCards ''lower'' lowerRanks ''spades'',
                setCards ''upper'' upperRanks ''hearts'',
                setCards ''upper'' upperRanks ''diamonds'',
                setCards ''upper'' upperRanks ''clubs'',
                setCards ''upper'' [''8'', ''9'', ''10'', ''jack'', ''queen'', ''king''] ''spades'']"
    using twoRequests_run[of "\<lambda>k i. 0"] run unfolding s1 by simp
  have ca: "\<exists>room. run (\<lambda>k i. 0) twoRequests
                 (snd (startGame oneSwap ''h'' ''r1'' [''r1'' \<mapsto> readyRoom])) ''r1'' = Some room
          \<and> length (allCards room) = 48
          \<and> map hand (players room) =
               [setCards ''lower'' [''2'', ''3'', ''4'', ''5'', ''6'', ''ace''] ''hearts'',
                setCards ''lower'' lowerRanks ''diamonds'',
                setCards ''lower'' lowerRanks ''clubs'',
                setCards ''lower'' lowerRanks ''spades'',
                setCards ''upper'' upperRanks ''hearts'',
                setCards ''upper'' upperRanks ''diamonds'',
                setCards ''upper'' upperRanks ''clubs'',
                setCards ''upper'' [''8'', ''9'', ''10'', ''jack'', ''queen'', ''king''] ''spades'']"
    by (intro exI[of _ room] conjI run len hands)
  have b1: "[''r1'' \<mapsto> dealtHands] ''r1'' = Some dealtHands" by simp
  have b2: "findIndex (\<lambda>p. pid p = ''h'') (players dealtHands) = Some 0"
    by (simp add: dealtHands_def)
  have b3: "findIndex (\<lambda>p. pid p = ''p7'') (players dealtHands) = Some 7"
    by (simp add: dealtHands_def)
  have b4: "currentTurnPlayerId dealtHands = Some ''h''" by (simp add: dealtHands_def)
  have b5: "isValidRequest (players dealtHands ! 0) (players dealtHands ! 7)
         \<lparr>suit = ''hearts'', rank = ''ace'', setType = ''lower''\<rparr>"
    by (simp add: isValidRequest_iff dealtHands_def setCards_def)
  have b6: "\<lparr>suit = ''hearts'', rank = ''ace'', setType = ''lower''\<rparr> \<in> set (hand (players dealtHands ! 7))"
    by (simp add: dealtHands_def)
  note one = requestCard_conserves_cards[where rooms="[''r1'' \<mapsto> dealtHands]" and rn="''r1''"
      and room=dealtHands and sid="''h''" and ri=0 and tid="''p7''" and ti=7
      and s="''hearts''" and r="''ace''" and st="''lower''", THEN conjunct2, rule_format]
  have "\<exists>room' k. snd (requestCard ''h'' ''r1'' ''p7'' ''hearts'' ''ace'' ''lower'' [''r1'' \<mapsto> dealtHands]) ''r1''
                    = Some room'
         \<and> k < length (hand (players dealtHands ! 7))
         \<and> hand (players dealtHands ! 7) ! k = \<lparr>suit = ''hearts'', rank = ''ace'', setType = ''lower''\<rparr>
         \<and> hand (players room' ! 7) =
              take k (hand (players dealtHands ! 7)) @ drop (Suc k) (hand (players dealtHands ! 7))
         \<and> length (hand (players room' ! 7)) + 1 = length (hand (players dealtHands ! 7))
         \<and> hand (players room' ! 0) =
              hand (players dealtHands ! 0) @ [\<lparr>suit = ''hearts'', rank = ''ace'', setType = ''lower''\<rparr>]
         \<and> (\<forall>j<length (players dealtHands). j \<noteq> 0 \<and> j \<noteq> 7 \<longrightarrow>
                hand (players room' ! j) = hand (players dealtHands ! j))
         \<and> length (players room') = length (players dealtHands)
         \<and> mset (allCards room') = mset (allCards dealtHands)"
    by (rule one) (intro conjI b1 b2 b3 b4 b5 b6)
  then obtain room' :: room and k :: nat where
    c1: "snd (requestCard ''h'' ''r1'' ''p7'' ''hearts'' ''ace'' ''lower'' [''r1'' \<mapsto> dealtHands]) ''r1''
                    = Some room'"
    and c2: "hand (players room' ! 0) =
              hand (players dealtHands ! 0) @ [\<lparr>suit = ''hearts'', rank = ''ace'', setType = ''lower''\<rparr>]"
    and c3: "length (hand (players room' ! 7)) + 1 = length (hand (players dealtHands ! 7))"
    by (elim exE conjE)
  have cb: "\<exists>room'. snd (requestCard ''h'' ''r1'' ''p7'' ''hearts'' ''ace'' ''lower'' [''r1'' \<mapsto> dealtHands]) ''r1''
                    = Some room'
          \<and> hand (players room' ! 0) =
               hand (players dealtHands ! 0) @ [\<lparr>suit = ''hearts'', rank = ''ace'', setType = ''lower''\<rparr>]
          \<and> length (hand (players room' ! 7)) + 1 = length (hand (players dealtHands ! 7))"
    by (intro exI[of _ room'] conjI c1 c2 c3)
  show ?thesis by (intro conjI h1 h2 h3 h4 ca b1 b2 b3 b4 b5 b6 cb)
qed

section \<open>Declaring a set\<close>

text \<open>
  A declaration by the turn holder throws when the captured sets are the object of the
  \<^verbatim>\<open>createRoom\<close> literal; on an array it appends one entry.
\<close>

lemma declareSet_object:
  assumes "rooms rn = Some room"
    and "findIndex (\<lambda>p. pid p = sid) (players room) = Some di"
    and "currentTurnPlayerId room = Some sid"
    and "capturedSets room = TeamObject a b"
  shows "declareSet sid rn s st rooms = (UncaughtTypeError, rooms)"
proof -
  have "pid (players room ! di) = sid" using findIndex_Some[OF assms(2)] by simp
  then show ?thesis using assms by (simp add: declareSet_def Let_def)
qed





section \<open>Status and winner\<close>

text \<open>
  No handler reads \<^verbatim>\<open>gameStatus\<close> or \<^verbatim>\<open>winner\<close>. \<^verbatim>\<open>joinTeam\<close>, \<^verbatim>\<open>claimTurn\<close> and
  \<^verbatim>\<open>requestCard\<close> leave both as they are; \<^verbatim>\<open>declareSet\<close> either sets the status to finished
  together with a winner or leaves both as they are. On a server that started with the
  empty room map no room ever has a status, a winner or a turn holder.
\<close>

lemma joinTeam_status:
  assumes "rooms rn = Some room"
  shows "\<exists>room'. snd (joinTeam sid rn2 tm rooms) rn = Some room'
     \<and> gameStatus room' = gameStatus room \<and> winner room' = winner room"
  using assms by (auto simp: joinTeam_def Let_def split: option.splits)

lemma claimTurn_status:
  assumes "rooms rn = Some room"
  shows "\<exists>room'. snd (claimTurn sid rn2 rooms) rn = Some room'
     \<and> gameStatus room' = gameStatus room \<and> winner room' = winner room"
  using assms by (auto simp: claimTurn_def Let_def split: option.splits)

lemma requestCard_status:
  assumes "rooms rn = Some room"
  shows "\<exists>room'. snd (requestCard sid rn2 tid s r st rooms) rn = Some room'
     \<and> gameStatus room' = gameStatus room \<and> winner room' = winner room"
  using assms
  by (auto simp: requestCard_def Let_def split: option.splits prod.splits)

lemma declareSet_status:
  assumes "rooms rn = Some room"
  shows "\<exists>room'. snd (declareSet sid rn2 s st rooms) rn = Some room'
     \<and> ((gameStatus room' = Some ''finished'' \<and> winner room' \<noteq> None)
        \<or> (gameStatus room' = gameStatus room \<and> winner room' = winner room))"
  using assms
  by (auto simp: declareSet_def Let_def split: option.splits capturedSetsValue.splits)

lemma reachable_room:
  assumes "run rnds msgs Map.empty rn = Some room"
  shows "gameStatus room = None \<and> winner room = None \<and> currentTurnPlayerId room = None
     \<and> capturedSets room = TeamObject [] []"
  using run_from_empty_pristine[of rnds msgs] assms
  by (simp add: allPristine_def pristine_def)

end
